theory Spec2Isabelle
  imports Main "HOL-Library.Word"
begin

section \<open>The Go values the controller works with\<close>

text \<open>
  The embedding follows \<^verbatim>\<open>controllers/kmsissuer_controller.go\<close>.

  \<^item> \<^verbatim>\<open>time.Duration\<close> is an \<^verbatim>\<open>int64\<close> count of nanoseconds: a 64-bit word, read with
    \<open>sint\<close>; \<open>+\<close>, \<open>-\<close> and \<open>*\<close> wrap around as Go's do.
  \<^item> \<^verbatim>\<open>time.Time\<close> is an instant, here the integer number of nanoseconds since the epoch
    (the range of Go's own representation, hundreds of billions of years, is not modelled).
  \<^item> A Go pointer to a struct is an \<open>option\<close>, \<open>None\<close> for \<^verbatim>\<open>nil\<close>. A function that
    dereferences a pointer returns an \<open>option\<close> of its own, \<open>None\<close> for the run-time panic
    of a nil dereference.
  \<^item> \<^verbatim>\<open>*big.Int\<close> is an address into a store of allocated big integers (a list, the address
    being the index); \<^verbatim>\<open>==\<close> and \<^verbatim>\<open>!=\<close> on two \<^verbatim>\<open>*big.Int\<close> compare the addresses.
\<close>

type_synonym time_Duration = "64 word"
type_synonym time_Time = int
type_synonym byte = "8 word"
type_synonym bigint_ptr = "nat option"
type_synonym bigint_store = "int list"

datatype error = NotFound | ErrorString string

subsection \<open>Package time\<close>

definition Hour :: time_Duration where
  "Hour = 3600000000000"

definition minDuration :: time_Duration where
  "minDuration = word_of_int (- (2 ^ 63))"

definition maxDuration :: time_Duration where
  "maxDuration = word_of_int (2 ^ 63 - 1)"

text \<open>\<^verbatim>\<open>t.Add(d)\<close>: the instant \<open>d\<close> after \<open>t\<close>.\<close>

definition Time_Add :: "time_Time \<Rightarrow> time_Duration \<Rightarrow> time_Time" where
  "Time_Add t d = t + sint d"

text \<open>
  \<^verbatim>\<open>t.Sub(u)\<close>: the duration \<open>t - u\<close>; Go returns the largest (smallest) duration when the
  difference does not fit in an \<^verbatim>\<open>int64\<close>.
\<close>

definition Time_Sub :: "time_Time \<Rightarrow> time_Time \<Rightarrow> time_Duration" where
  "Time_Sub t u =
     (if t - u < - (2 ^ 63) then minDuration
      else if 2 ^ 63 - 1 < t - u then maxDuration
      else word_of_int (t - u))"

text \<open>
  \<^verbatim>\<open>time.Until(t)\<close> is \<^verbatim>\<open>t.Sub(time.Now())\<close>. The clock is read inside; in the model the
  reading \<open>now\<close> is an argument.
\<close>

definition time_Until :: "time_Time \<Rightarrow> time_Time \<Rightarrow> time_Duration" where
  "time_Until now t = Time_Sub t now"

subsection \<open>The issuer resource (package api/v1alpha1)\<close>

datatype ConditionStatus = ConditionTrue | ConditionFalse | ConditionUnknown

record Condition =
  Type :: string
  CondStatus :: ConditionStatus
  LastTransitionTime :: time_Time
  Reason :: string
  Message :: string

record KMSIssuerSpec =
  KeyID :: string
  CommonName :: string
  Duration :: "time_Duration option"
  RenewBefore :: "time_Duration option"

record KMSIssuerStatus =
  Certificate :: "byte list"
  Conditions :: "Condition list"

record KMSIssuer =
  Spec :: KMSIssuerSpec
  Status :: KMSIssuerStatus

text \<open>
  Modelled from the spec: the constants \<^verbatim>\<open>ConditionReady\<close>, \<^verbatim>\<open>KMSIssuerReasonIssued\<close> and
  \<^verbatim>\<open>KMSIssuerReasonFailed\<close> of package api/v1alpha1 are not among the sources. The spec
  names the condition type "Ready" and the reasons "Issued" and "Failed".
\<close>

definition ConditionReady :: string where
  "ConditionReady = ''Ready''"

definition KMSIssuerReasonIssued :: string where
  "KMSIssuerReasonIssued = ''Issued''"

definition KMSIssuerReasonFailed :: string where
  "KMSIssuerReasonFailed = ''Failed''"

text \<open>
  Modelled from the spec: \<^verbatim>\<open>NewCondition\<close> and \<^verbatim>\<open>SetCondition\<close> of package api/v1alpha1 are
  not among the sources. The spec: a condition is
  \<^verbatim>\<open>{type, status, reason, message, lastTransitionTime}\<close>; merging is replace-by-type in the
  ordered condition set, and \<^verbatim>\<open>lastTransitionTime\<close> is updated only if \<^verbatim>\<open>status\<close> or
  \<^verbatim>\<open>reason\<close> changed. \<open>now\<close> is the clock reading that stamps the new condition.
\<close>

definition NewCondition ::
  "time_Time \<Rightarrow> string \<Rightarrow> ConditionStatus \<Rightarrow> string \<Rightarrow> string \<Rightarrow> Condition" where
  "NewCondition now condType status reason message =
     \<lparr>Type = condType, CondStatus = status, LastTransitionTime = now,
      Reason = reason, Message = message\<rparr>"

fun SetCondition :: "Condition \<Rightarrow> Condition list \<Rightarrow> Condition list" where
  "SetCondition c [] = [c]"
| "SetCondition c (x # xs) =
     (if Type x = Type c then
        (if CondStatus x = CondStatus c \<and> Reason x = Reason c
         then c\<lparr>LastTransitionTime := LastTransitionTime x\<rparr>
         else c) # xs
      else x # SetCondition c xs)"

subsection \<open>Certificates (package crypto/x509) and the CA engine (package kmsca)\<close>

text \<open>The fields of \<^verbatim>\<open>x509.Certificate\<close> that the controller reads.\<close>

record x509_Certificate =
  Raw :: "byte list"
  NotAfter :: time_Time
  SerialNumber :: bigint_ptr

text \<open>\<^verbatim>\<open>kmsca.GenerateCertificateAuthorityCertificateInput\<close>.\<close>

record CertificateInput =
  InputKeyID :: string
  SubjectCommonName :: string
  InputDuration :: time_Duration
  Rounding :: time_Duration

text \<open>
  The functions the controller calls and that are not among the sources are parameters of
  the model. From Go's standard library:
  \<^item> \<open>pem_Decode\<close>: the bytes of the first PEM block, \<open>None\<close> when \<^verbatim>\<open>pem.Decode\<close> finds none;
  \<^item> \<open>pem_EncodeToMemory\<close>: the PEM text of a block, from its type and bytes;
  \<^item> \<open>x509_decode\<close>: what \<^verbatim>\<open>x509.ParseCertificate\<close> reads off DER bytes, the \<^verbatim>\<open>NotAfter\<close>
    instant and the value of the serial number, \<open>None\<close> when it returns an error.
  From package kmsca of this repository, whose code is not among the sources (the spec
  calls it the CA engine, with \<^verbatim>\<open>preview(params) -> {serialNumber, notAfter}\<close> and
  \<^verbatim>\<open>signAndIssue(params) -> certificate | Error\<close>):
  \<^item> \<open>kmsca_preview\<close>: \<^verbatim>\<open>KMSCA.GenerateCertificateAuthorityCertificate\<close>, the \<^verbatim>\<open>NotAfter\<close>
    instant and the value of the serial number of the unsigned certificate;
  \<^item> \<open>kmsca_sign\<close>: \<^verbatim>\<open>KMSCA.GenerateAndSignCertificateAuthorityCertificate\<close>, an error or the
    DER bytes (\<^verbatim>\<open>cert.Raw\<close>) of the signed certificate.
  \<^verbatim>\<open>Reconcile\<close> calls each of the last two at most once, so a function of the input stands for
  any behaviour of the engine, its own reading of the clock included.
\<close>

record Libs =
  pem_Decode :: "byte list \<Rightarrow> byte list option"
  pem_EncodeToMemory :: "string \<Rightarrow> byte list \<Rightarrow> byte list"
  x509_decode :: "byte list \<Rightarrow> (time_Time \<times> int) option"
  kmsca_preview :: "CertificateInput \<Rightarrow> time_Time \<times> int"
  kmsca_sign :: "CertificateInput \<Rightarrow> error + byte list"

text \<open>A \<^verbatim>\<open>*big.Int\<close> is well formed in a store when it is nil or the address of an allocated cell.\<close>

definition ptr_valid :: "bigint_store \<Rightarrow> bigint_ptr \<Rightarrow> bool" where
  "ptr_valid h p = (case p of None \<Rightarrow> True | Some a \<Rightarrow> a < length h)"

text \<open>The value a \<^verbatim>\<open>*big.Int\<close> points to, \<open>None\<close> for nil and for a dangling address.\<close>

definition bigint_value :: "bigint_store \<Rightarrow> bigint_ptr \<Rightarrow> int option" where
  "bigint_value h p =
     (case p of None \<Rightarrow> None | Some a \<Rightarrow> if a < length h then Some (h ! a) else None)"

text \<open>\<^verbatim>\<open>new(big.Int)\<close> set to \<open>v\<close>: a fresh cell at the end of the store.\<close>

definition new_bigint :: "bigint_store \<Rightarrow> int \<Rightarrow> bigint_ptr \<times> bigint_store" where
  "new_bigint h v = (Some (length h), h @ [v])"

text \<open>
  \<^verbatim>\<open>x509.ParseCertificate\<close> returns a new certificate whose \<^verbatim>\<open>SerialNumber\<close> is a newly
  allocated \<^verbatim>\<open>big.Int\<close>.
\<close>

definition x509_ParseCertificate ::
  "Libs \<Rightarrow> bigint_store \<Rightarrow> byte list \<Rightarrow> (error + x509_Certificate) \<times> bigint_store" where
  "x509_ParseCertificate L h der =
     (case x509_decode L der of
        None \<Rightarrow> (Inl (ErrorString ''x509: malformed certificate''), h)
      | Some (notAfter, serial) \<Rightarrow>
          (case new_bigint h serial of
             (p, h') \<Rightarrow> (Inr \<lparr>Raw = der, NotAfter = notAfter, SerialNumber = p\<rparr>, h')))"

text \<open>
  Modelled from the spec: \<^verbatim>\<open>KMSCA.GenerateCertificateAuthorityCertificate\<close> of package kmsca is
  not among the sources. The spec: the engine computes a deterministic preview of the
  desired certificate (serial number, \<^verbatim>\<open>NotAfter\<close>) without signing. The two values are those
  of \<open>kmsca_preview\<close>; the certificate returned is a new \<^verbatim>\<open>x509.Certificate\<close>, its serial
  number a \<^verbatim>\<open>big.Int\<close> of its own.
\<close>

definition GenerateCertificateAuthorityCertificate ::
  "Libs \<Rightarrow> bigint_store \<Rightarrow> CertificateInput \<Rightarrow> x509_Certificate \<times> bigint_store" where
  "GenerateCertificateAuthorityCertificate L h certInput =
     (case kmsca_preview L certInput of
        (notAfter, serial) \<Rightarrow>
          (case new_bigint h serial of
             (p, h') \<Rightarrow> (\<lparr>Raw = [], NotAfter = notAfter, SerialNumber = p\<rparr>, h')))"

section \<open>The controller\<close>

subsection \<open>Constants\<close>

definition DefaultCertDuration :: time_Duration where
  "DefaultCertDuration = Hour * 24 * 365 * 3"

text \<open>
  \<^verbatim>\<open>DefaultCertRenewalRatio = 2 / 3\<close> is an untyped constant expression of two integer
  constants: Go divides them as integers.
\<close>

definition DefaultCertRenewalRatio :: int where
  "DefaultCertRenewalRatio = 2 div 3"

subsection \<open>setIssuerDefaultValues\<close>

text \<open>
  The function mutates \<^verbatim>\<open>issuer.Spec\<close> in place; the model returns the issuer after the
  call, \<open>None\<close> if a nil \<^verbatim>\<open>Duration\<close> or \<^verbatim>\<open>RenewBefore\<close> were dereferenced.
\<close>

definition setIssuerDefaultValues :: "KMSIssuer \<Rightarrow> KMSIssuer option" where
  "setIssuerDefaultValues issuer =
     (let spec1 =
        (if (case Duration (Spec issuer) of None \<Rightarrow> True | Some d \<Rightarrow> d = 0)
         then (Spec issuer)\<lparr>Duration := Some DefaultCertDuration\<rparr>
         else Spec issuer)
      in
      case
        (if RenewBefore spec1 = None then
           (case Duration spec1 of
              None \<Rightarrow> None
            | Some d \<Rightarrow>
                Some (spec1\<lparr>RenewBefore := Some (d * word_of_int DefaultCertRenewalRatio)\<rparr>))
         else Some spec1)
      of
        None \<Rightarrow> None
      | Some spec2 \<Rightarrow>
          (case RenewBefore spec2 of
             None \<Rightarrow> None
           | Some rb \<Rightarrow>
               (case Duration spec2 of
                  None \<Rightarrow> None
                | Some d \<Rightarrow>
                    if sint d < sint rb then
                      Some (issuer\<lparr>Spec :=
                        spec2\<lparr>RenewBefore := Some (d * word_of_int DefaultCertRenewalRatio)\<rparr>\<rparr>)
                    else Some (issuer\<lparr>Spec := spec2\<rparr>))))"

subsection \<open>ParseCertificate\<close>

definition ParseCertificate ::
  "Libs \<Rightarrow> bigint_store \<Rightarrow> byte list \<Rightarrow> (error + x509_Certificate) \<times> bigint_store" where
  "ParseCertificate L h cert =
     (case pem_Decode L cert of
        None \<Rightarrow> (Inl (ErrorString ''failed to parse certificate PEM''), h)
      | Some blockBytes \<Rightarrow> x509_ParseCertificate L h blockBytes)"

subsection \<open>certificateNeedsRenewal\<close>

text \<open>
  \<open>h\<close> is the store of big integers at the call, \<open>now\<close> the reading of the clock inside
  \<^verbatim>\<open>time.Until\<close>. The last test compares the two \<^verbatim>\<open>SerialNumber\<close> fields, which are
  \<^verbatim>\<open>*big.Int\<close>: it compares addresses. The result is \<open>None\<close> when \<^verbatim>\<open>issuer.Spec.RenewBefore\<close>
  is nil where the function dereferences it. The pointer \<^verbatim>\<open>desiredCert\<close> itself is taken to be
  non-nil: the engine returns a certificate.
\<close>

definition certificateNeedsRenewal ::
  "Libs \<Rightarrow> bigint_store \<Rightarrow> time_Time \<Rightarrow> KMSIssuer \<Rightarrow> x509_Certificate \<Rightarrow> bool option" where
  "certificateNeedsRenewal L h now issuer desiredCert =
     (if length (Certificate (Status issuer)) = 0 then Some True
      else
        (case fst (ParseCertificate L h (Certificate (Status issuer))) of
           Inl err \<Rightarrow> Some True
         | Inr actualCert \<Rightarrow>
             (case RenewBefore (Spec issuer) of
                None \<Rightarrow> None
              | Some rb \<Rightarrow>
                  if time_Until now (Time_Add (NotAfter actualCert) (- 1 * rb)) = 0
                  then Some True
                  else if SerialNumber desiredCert \<noteq> SerialNumber actualCert
                  then Some True
                  else Some False)))"

subsection \<open>desiredCertificateAuthorityCertificateInput\<close>

definition desiredCertificateAuthorityCertificateInput ::
  "KMSIssuer \<Rightarrow> CertificateInput option" where
  "desiredCertificateAuthorityCertificateInput issuer =
     (case Duration (Spec issuer) of
        None \<Rightarrow> None
      | Some d \<Rightarrow>
          (case RenewBefore (Spec issuer) of
             None \<Rightarrow> None
           | Some rb \<Rightarrow>
               Some \<lparr>InputKeyID = KeyID (Spec issuer),
                     SubjectCommonName = CommonName (Spec issuer),
                     InputDuration = d,
                     Rounding = d - rb\<rparr>))"

subsection \<open>The resource store, the event recorder and the clock\<close>

text \<open>
  What \<^verbatim>\<open>Reconcile\<close> reads and writes outside its own variables:
  \<^item> \<open>stored\<close>: the resource the request names, \<open>None\<close> when there is none;
  \<^item> \<open>get_failure\<close>: the error of \<^verbatim>\<open>Client.Get\<close> when the read itself fails;
  \<^item> \<open>update_results\<close>: what the coming calls of \<^verbatim>\<open>Client.Status().Update\<close> return, in
    order (\<open>None\<close> for nil; a call beyond the list succeeds);
  \<^item> \<open>updates\<close>: the status sent by every call of \<^verbatim>\<open>Client.Status().Update\<close> so far and
    what the call returned, oldest first;
  \<^item> \<open>events\<close>: the events given to the recorder, oldest first;
  \<^item> \<open>bigints\<close>: the store of allocated big integers.
  The logger's output is not modelled.
\<close>

datatype EventType = EventTypeNormal | EventTypeWarning

record World =
  stored :: "KMSIssuer option"
  get_failure :: "error option"
  update_results :: "error option list"
  updates :: "(KMSIssuerStatus \<times> error option) list"
  events :: "(EventType \<times> string \<times> string) list"
  bigints :: bigint_store

text \<open>
  The readings of the clock, one for each place of a \<^verbatim>\<open>Reconcile\<close> run that reads it: inside
  \<^verbatim>\<open>certificateNeedsRenewal\<close>, for the requeue delay, and for the time stamp of the new
  condition. A run passes each place at most once.
\<close>

record Clock =
  now_decision :: time_Time
  now_requeue :: time_Time
  now_condition :: time_Time

record Result =
  Requeue :: bool
  RequeueAfter :: time_Duration

text \<open>\<^verbatim>\<open>ctrl.Result{}\<close>.\<close>

definition emptyResult :: Result where
  "emptyResult = \<lparr>Requeue = False, RequeueAfter = 0\<rparr>"

definition client_Get :: "World \<Rightarrow> error + KMSIssuer" where
  "client_Get w =
     (case get_failure w of
        Some e \<Rightarrow> Inl e
      | None \<Rightarrow> (case stored w of None \<Rightarrow> Inl NotFound | Some issuer \<Rightarrow> Inr issuer))"

definition IgnoreNotFound :: "error \<Rightarrow> error option" where
  "IgnoreNotFound err = (if err = NotFound then None else Some err)"

text \<open>
  \<^verbatim>\<open>r.Client.Status().Update(ctx, issuer)\<close>: the call is logged with its outcome; when it
  succeeds the stored resource takes the status of \<open>issuer\<close>.
\<close>

definition next_update_result :: "World \<Rightarrow> error option" where
  "next_update_result w = (case update_results w of [] \<Rightarrow> None | r # rs \<Rightarrow> r)"

definition Status_Update :: "KMSIssuer \<Rightarrow> World \<Rightarrow> error option \<times> World" where
  "Status_Update issuer w =
     (let outcome = next_update_result w;
          w1 = w\<lparr>update_results := tl (update_results w),
                 updates := updates w @ [(Status issuer, outcome)]\<rparr>
      in case outcome of
           Some e \<Rightarrow> (Some e, w1)
         | None \<Rightarrow>
             (None, w1\<lparr>stored := map_option (\<lambda>i. i\<lparr>Status := Status issuer\<rparr>) (stored w1)\<rparr>))"

definition Recorder_Event :: "EventType \<Rightarrow> string \<Rightarrow> string \<Rightarrow> World \<Rightarrow> World" where
  "Recorder_Event eventtype reason message w =
     w\<lparr>events := events w @ [(eventtype, reason, message)]\<rparr>"

text \<open>The condition of type Ready in a status, if there is one.\<close>

definition readyCondition :: "KMSIssuerStatus \<Rightarrow> Condition option" where
  "readyCondition st = find (\<lambda>c. Type c = ConditionReady) (Conditions st)"

subsection \<open>manageSuccess and manageFailure\<close>

definition manageSuccess :: "Clock \<Rightarrow> KMSIssuer \<Rightarrow> World \<Rightarrow> error option \<times> World" where
  "manageSuccess clk issuer w =
     (let reason = KMSIssuerReasonIssued;
          msg = [];
          w1 = Recorder_Event EventTypeNormal reason msg w;
          ready = NewCondition (now_condition clk) ConditionReady ConditionTrue reason msg;
          issuer1 = issuer\<lparr>Status :=
            (Status issuer)\<lparr>Conditions := SetCondition ready (Conditions (Status issuer))\<rparr>\<rparr>
      in Status_Update issuer1 w1)"

definition manageFailure ::
  "Clock \<Rightarrow> KMSIssuer \<Rightarrow> error \<Rightarrow> string \<Rightarrow> World \<Rightarrow> error option \<times> World" where
  "manageFailure clk issuer issue message w =
     (let reason = KMSIssuerReasonFailed;
          w1 = Recorder_Event EventTypeWarning reason message w;
          ready = NewCondition (now_condition clk) ConditionReady ConditionFalse reason message;
          issuer1 = issuer\<lparr>Status :=
            (Status issuer)\<lparr>Conditions := SetCondition ready (Conditions (Status issuer))\<rparr>\<rparr>
      in Status_Update issuer1 w1)"

subsection \<open>Reconcile\<close>

text \<open>
  The last statement of \<^verbatim>\<open>Reconcile\<close>: Go evaluates the operands of the \<^verbatim>\<open>return\<close> from left
  to right, the requeue delay first, then \<^verbatim>\<open>manageSuccess\<close>.
\<close>

definition requeueAfter :: "time_Time \<Rightarrow> KMSIssuer \<Rightarrow> x509_Certificate \<Rightarrow> time_Duration option" where
  "requeueAfter now issuer desiredCert =
     (case RenewBefore (Spec issuer) of
        None \<Rightarrow> None
      | Some rb \<Rightarrow> Some (time_Until now (Time_Add (NotAfter desiredCert) (- 1 * rb))))"

definition reconcileDone ::
  "Clock \<Rightarrow> KMSIssuer \<Rightarrow> x509_Certificate \<Rightarrow> World \<Rightarrow> ((Result \<times> error option) \<times> World) option" where
  "reconcileDone clk issuer desiredCert w =
     (case requeueAfter (now_requeue clk) issuer desiredCert of
        None \<Rightarrow> None
      | Some after \<Rightarrow>
          (case manageSuccess clk issuer w of
             (err, w') \<Rightarrow> Some ((\<lparr>Requeue = False, RequeueAfter = after\<rparr>, err), w')))"

text \<open>
  The result is \<open>None\<close> when the run panics on a nil \<^verbatim>\<open>Duration\<close> or \<^verbatim>\<open>RenewBefore\<close>,
  otherwise the pair that \<^verbatim>\<open>Reconcile\<close> returns and the world after the run. (The
  certificates that the engine returns are taken to be non-nil, the signed one when the error
  is nil.)
\<close>

definition Reconcile :: "Libs \<Rightarrow> Clock \<Rightarrow> World \<Rightarrow> ((Result \<times> error option) \<times> World) option" where
  "Reconcile L clk w =
     (case client_Get w of
        Inl err \<Rightarrow> Some ((emptyResult, IgnoreNotFound err), w)
      | Inr issuer0 \<Rightarrow>
          if KeyID (Spec issuer0) = [] then
            (case manageFailure clk issuer0 (ErrorString ''INVALID KeyId'')
                    (''Not a valid key: '' @ KeyID (Spec issuer0)) w of
               (err, w') \<Rightarrow> Some ((emptyResult, err), w'))
          else
            (case setIssuerDefaultValues issuer0 of
               None \<Rightarrow> None
             | Some issuer \<Rightarrow>
                 (case desiredCertificateAuthorityCertificateInput issuer of
                    None \<Rightarrow> None
                  | Some certInput \<Rightarrow>
                      (case GenerateCertificateAuthorityCertificate L (bigints w) certInput of
                         (desiredCert, h) \<Rightarrow>
                           (let w1 = w\<lparr>bigints := h\<rparr> in
                            case certificateNeedsRenewal L h (now_decision clk) issuer desiredCert of
                              None \<Rightarrow> None
                            | Some False \<Rightarrow> reconcileDone clk issuer desiredCert w1
                            | Some True \<Rightarrow>
                                (case kmsca_sign L certInput of
                                   Inl err \<Rightarrow>
                                     (case manageFailure clk issuer err
                                        ''Failed to generate the Certificate Authority Certificate'' w1 of
                                        (err', w') \<Rightarrow> Some ((emptyResult, err'), w'))
                                 | Inr raw \<Rightarrow>
                                     (let issuer1 = issuer\<lparr>Status := (Status issuer)
                                            \<lparr>Certificate := pem_EncodeToMemory L ''CERTIFICATE'' raw\<rparr>\<rparr>
                                      in case Status_Update issuer1 w1 of
                                           (Some err, w2) \<Rightarrow>
                                             (case manageFailure clk issuer1 err
                                                ''Failed to update the issuer with the issued Certificate'' w2 of
                                                (err', w') \<Rightarrow> Some ((emptyResult, err'), w'))
                                         | (None, w2) \<Rightarrow>
                                             reconcileDone clk issuer1 desiredCert w2)))))))"

section \<open>Example values\<close>

text \<open>
  Concrete values for the closed examples below. The example libraries use a toy encoding: a
  PEM text is the byte 45 followed by the DER bytes, and the DER bytes of a certificate are
  two bytes, \<^verbatim>\<open>NotAfter\<close> in microseconds and the serial number. The example engine issues
  a certificate that expires \<^verbatim>\<open>Duration\<close> after the instant 1000, with serial number 7.
\<close>

definition example_Libs :: Libs where
  "example_Libs =
     \<lparr>pem_Decode = (\<lambda>bs. case bs of [] \<Rightarrow> None | b # der \<Rightarrow> if b = 45 then Some der else None),
      pem_EncodeToMemory = (\<lambda>t der. 45 # der),
      x509_decode =
        (\<lambda>der. case der of [a, b] \<Rightarrow> Some (int (unat a) * 1000, int (unat b)) | _ \<Rightarrow> None),
      kmsca_preview = (\<lambda>certInput. (1000 + sint (InputDuration certInput), 7)),
      kmsca_sign = (\<lambda>certInput. Inr [9, 7])\<rparr>"

definition example_issuer :: KMSIssuer where
  "example_issuer =
     \<lparr>Spec = \<lparr>KeyID = ''k1'', CommonName = ''ca.example'',
              Duration = Some Hour, RenewBefore = Some 1000\<rparr>,
      Status = \<lparr>Certificate = [45, 5, 7], Conditions = []\<rparr>\<rparr>"

text \<open>The same issuer with \<^verbatim>\<open>renewBefore\<close> unset.\<close>

definition example_issuer_unset :: KMSIssuer where
  "example_issuer_unset =
     example_issuer\<lparr>Spec := (Spec example_issuer)\<lparr>RenewBefore := None\<rparr>\<rparr>"

definition example_World :: World where
  "example_World =
     \<lparr>stored = Some example_issuer, get_failure = None, update_results = [],
      updates = [], events = [], bigints = []\<rparr>"

definition example_Clock :: Clock where
  "example_Clock = \<lparr>now_decision = 1000, now_requeue = 2000, now_condition = 3000\<rparr>"

text \<open>The same world, the stored issuer with an empty key reference.\<close>

definition example_World_no_key :: World where
  "example_World_no_key =
     example_World\<lparr>stored := Some (example_issuer\<lparr>Spec := (Spec example_issuer)\<lparr>KeyID := []\<rparr>\<rparr>)\<rparr>"

text \<open>
  What \<^verbatim>\<open>Reconcile\<close> computes on the way in the example world: the input of the engine and
  the desired certificate, its serial number in cell 0 of the store.
\<close>

definition example_certInput :: CertificateInput where
  "example_certInput =
     \<lparr>InputKeyID = ''k1'', SubjectCommonName = ''ca.example'',
      InputDuration = Hour, Rounding = Hour - 1000\<rparr>"

definition example_desiredCert :: x509_Certificate where
  "example_desiredCert = \<lparr>Raw = [], NotAfter = 3600000001000, SerialNumber = Some 0\<rparr>"

text \<open>The example libraries with an engine that cannot sign.\<close>

definition example_Libs_sign_fails :: Libs where
  "example_Libs_sign_fails =
     example_Libs\<lparr>kmsca_sign := (\<lambda>certInput. Inl (ErrorString ''kms: access denied''))\<rparr>"

text \<open>
  An issuer with the longest duration there is (some 292 years) and a negative
  \<^verbatim>\<open>renewBefore\<close> of one hour, and the example world with it.
\<close>

definition example_issuer_long :: KMSIssuer where
  "example_issuer_long =
     example_issuer\<lparr>Spec := (Spec example_issuer)
        \<lparr>Duration := Some maxDuration, RenewBefore := Some (- Hour)\<rparr>\<rparr>"

definition example_World_long :: World where
  "example_World_long = example_World\<lparr>stored := Some example_issuer_long\<rparr>"

text \<open>The example world with a store that accepts the first status write and refuses the second.\<close>

definition example_World_conflict :: World where
  "example_World_conflict =
     example_World\<lparr>update_results := [None, Some (ErrorString ''conflict'')]\<rparr>"

section \<open>The default resolver\<close>

lemma setIssuerDefaultValues_Some:
  "setIssuerDefaultValues issuer \<noteq> None"
  by (simp add: setIssuerDefaultValues_def Let_def split: option.splits)

lemma setIssuerDefaultValues_fields:
  assumes "setIssuerDefaultValues issuer = Some i"
  shows "Duration (Spec i) \<noteq> None" and "RenewBefore (Spec i) \<noteq> None"
    and "Status i = Status issuer" and "KeyID (Spec i) = KeyID (Spec issuer)"
    and "CommonName (Spec i) = CommonName (Spec issuer)"
  using assms
  by (auto simp add: setIssuerDefaultValues_def Let_def split: option.splits if_splits)

text \<open>A spec whose fields are set, with a non-zero duration that bounds \<^verbatim>\<open>renewBefore\<close>, is left as it is.\<close>

lemma setIssuerDefaultValues_noop:
  "Duration (Spec issuer) = Some d \<Longrightarrow> RenewBefore (Spec issuer) = Some rb \<Longrightarrow>
     d \<noteq> 0 \<Longrightarrow> sint rb \<le> sint d \<Longrightarrow> setIssuerDefaultValues issuer = Some issuer"
  by (simp add: setIssuerDefaultValues_def Let_def)

text \<open>So is one whose \<^verbatim>\<open>renewBefore\<close> is zero, also above a negative duration: it is reset to zero.\<close>

lemma setIssuerDefaultValues_reset:
  "Duration (Spec issuer) = Some d \<Longrightarrow> RenewBefore (Spec issuer) = Some 0 \<Longrightarrow>
     d \<noteq> 0 \<Longrightarrow> setIssuerDefaultValues issuer = Some issuer"
  by (simp add: setIssuerDefaultValues_def Let_def DefaultCertRenewalRatio_def)

lemma setIssuerDefaultValues_settled:
  assumes "setIssuerDefaultValues issuer = Some i"
  shows "\<exists>d rb. Duration (Spec i) = Some d \<and> RenewBefore (Spec i) = Some rb \<and> d \<noteq> 0 \<and>
           (sint rb \<le> sint d \<or> rb = 0)"
  using assms
  by (auto simp add: setIssuerDefaultValues_def Let_def DefaultCertRenewalRatio_def
      DefaultCertDuration_def Hour_def split: option.splits if_splits)

text \<open>
  The renewal ratio is the integer quotient of 2 by 3, which is 0: an unset \<^verbatim>\<open>renewBefore\<close>
  becomes the zero duration, whatever the duration is.
\<close>

lemma setIssuerDefaultValues_unset:
  assumes "RenewBefore (Spec issuer) = None" and "setIssuerDefaultValues issuer = Some i"
  shows "RenewBefore (Spec i) = Some 0"
  using assms
  by (auto simp add: setIssuerDefaultValues_def Let_def DefaultCertRenewalRatio_def
      split: option.splits if_splits)

text \<open>
  C2. The claim: when \<^verbatim>\<open>renewBefore\<close> is unset, \<^verbatim>\<open>setIssuerDefaultValues\<close> sets it to two-thirds
  of the duration. For a duration of one hour that is 2400000000000 nanoseconds; the function
  sets 0.
\<close>

theorem unset_renewBefore_of_one_hour:
  "map_option (\<lambda>i. (Duration (Spec i), RenewBefore (Spec i)))
     (setIssuerDefaultValues example_issuer_unset) = Some (Some 3600000000000, Some 0)"
  by (simp add: setIssuerDefaultValues_def Let_def example_issuer_unset_def example_issuer_def
      Hour_def DefaultCertRenewalRatio_def)

text \<open>
  C8. \<^verbatim>\<open>setIssuerDefaultValues\<close> is idempotent: it returns, and applied to its own result it
  returns that result again. On a spec with \<open>duration > 0\<close> and \<open>0 < renewBefore \<le> duration\<close>
  it changes nothing.
\<close>

theorem setIssuerDefaultValues_idempotent:
  "(\<exists>i. setIssuerDefaultValues issuer = Some i \<and> setIssuerDefaultValues i = Some i) \<and>
   (\<forall>d rb. Duration (Spec issuer) = Some d \<and> RenewBefore (Spec issuer) = Some rb \<and>
       0 < sint d \<and> 0 < sint rb \<and> sint rb \<le> sint d \<longrightarrow>
       setIssuerDefaultValues issuer = Some issuer)"
proof (intro conjI allI impI)
  obtain i where i: "setIssuerDefaultValues issuer = Some i"
    using setIssuerDefaultValues_Some [of issuer] by blast
  from setIssuerDefaultValues_settled [OF i] obtain d rb where
    "Duration (Spec i) = Some d" "RenewBefore (Spec i) = Some rb" "d \<noteq> 0"
    "sint rb \<le> sint d \<or> rb = 0"
    by blast
  then have "setIssuerDefaultValues i = Some i"
    using setIssuerDefaultValues_noop [of i d rb] setIssuerDefaultValues_reset [of i d]
    by blast
  with i show "\<exists>i. setIssuerDefaultValues issuer = Some i \<and> setIssuerDefaultValues i = Some i"
    by blast
next
  fix d rb
  assume a: "Duration (Spec issuer) = Some d \<and> RenewBefore (Spec issuer) = Some rb \<and>
       0 < sint d \<and> 0 < sint rb \<and> sint rb \<le> sint d"
  then have "sint d \<noteq> sint 0"
    by simp
  then have "d \<noteq> 0"
    by blast
  with a show "setIssuerDefaultValues issuer = Some issuer"
    using setIssuerDefaultValues_noop [of issuer d rb] by blast
qed

theorem setIssuerDefaultValues_idempotent_witness:
  "Duration (Spec example_issuer) = Some Hour \<and> RenewBefore (Spec example_issuer) = Some 1000 \<and>
   0 < sint Hour \<and> 0 < sint (1000 :: time_Duration) \<and> sint (1000 :: time_Duration) \<le> sint Hour \<and>
   setIssuerDefaultValues example_issuer = Some example_issuer \<and>
   (\<exists>i. setIssuerDefaultValues example_issuer_unset = Some i \<and>
        setIssuerDefaultValues i = Some i)"
proof -
  have h: "Duration (Spec example_issuer) = Some Hour \<and>
      RenewBefore (Spec example_issuer) = Some 1000 \<and>
      0 < sint Hour \<and> 0 < sint (1000 :: time_Duration) \<and>
      sint (1000 :: time_Duration) \<le> sint Hour"
    by (simp add: example_issuer_def Hour_def)
  from setIssuerDefaultValues_idempotent [of example_issuer] h
  have "setIssuerDefaultValues example_issuer = Some example_issuer"
    by blast
  with h setIssuerDefaultValues_idempotent [of example_issuer_unset] show ?thesis
    by blast
qed

section \<open>The renewal decision\<close>

text \<open>A certificate that \<^verbatim>\<open>ParseCertificate\<close> returns has a serial number allocated by the call.\<close>

lemma parse_fresh:
  "fst (ParseCertificate L h bs) = Inr c \<Longrightarrow> SerialNumber c = Some (length h)"
  by (auto simp add: ParseCertificate_def x509_ParseCertificate_def new_bigint_def
      split: option.splits prod.splits)

text \<open>Whether the bytes parse does not depend on the store.\<close>

lemma parse_error_any_store:
  "isl (fst (ParseCertificate L h bs)) = isl (fst (ParseCertificate L h' bs))"
  by (simp add: ParseCertificate_def x509_ParseCertificate_def new_bigint_def
      split: option.splits prod.splits)

text \<open>
  The serial number of the desired certificate was allocated before the call (or is nil), so
  it is never the address of the serial number parsed inside the call: the comparison on
  line 157 finds them different, whatever the two numbers are.
\<close>

lemma needsRenewal_value:
  assumes "ptr_valid h (SerialNumber d)"
  shows "certificateNeedsRenewal L h now issuer d =
     (if Certificate (Status issuer) = [] \<or>
         isl (fst (ParseCertificate L h (Certificate (Status issuer))))
      then Some True
      else map_option (\<lambda>rb. True) (RenewBefore (Spec issuer)))"
  using assms
  by (auto simp add: certificateNeedsRenewal_def ptr_valid_def dest!: parse_fresh
      split: sum.splits option.splits)

lemma certificateNeedsRenewal_Some:
  "RenewBefore (Spec i) \<noteq> None \<Longrightarrow> certificateNeedsRenewal L h now i d \<noteq> None"
  by (auto simp add: certificateNeedsRenewal_def split: sum.splits)

lemma example_parse:
  "ParseCertificate example_Libs [7] [45, 5, 7] =
     (Inr \<lparr>Raw = [5, 7], NotAfter = 5000, SerialNumber = Some 1\<rparr>, [7, 7])"
  by (simp add: ParseCertificate_def x509_ParseCertificate_def new_bigint_def example_Libs_def)

subsection \<open>The deadline test\<close>

lemma minDuration_sint: "sint minDuration = - (2 ^ 63)"
  by (simp add: minDuration_def)

lemma maxDuration_sint: "sint maxDuration = 2 ^ 63 - 1"
  by (simp add: maxDuration_def)

lemma sint_word_of_int_64:
  "- (2 ^ 63) \<le> k \<Longrightarrow> k < 2 ^ 63 \<Longrightarrow> sint (word_of_int k :: 64 word) = k"
  by (simp add: sint_sbintrunc' signed_take_bit_int_eq_self)

lemma Time_Sub_sint:
  "sint (Time_Sub t u) = max (- (2 ^ 63)) (min (2 ^ 63 - 1) (t - u))"
proof -
  consider "t - u < - (2 ^ 63)" | "2 ^ 63 - 1 < t - u" | "- (2 ^ 63) \<le> t - u" "t - u < 2 ^ 63"
    by linarith
  then show ?thesis
  proof cases
    case 1
    then show ?thesis by (simp add: Time_Sub_def minDuration_sint)
  next
    case 2
    then show ?thesis by (simp add: Time_Sub_def maxDuration_sint)
  next
    case 3
    then have "Time_Sub t u = word_of_int (t - u)"
      unfolding Time_Sub_def by simp
    with 3 show ?thesis
      using sint_word_of_int_64 [of "t - u"] by simp
  qed
qed

text \<open>
  The test on line 152, \<^verbatim>\<open>time.Until(...) == 0\<close>, holds at the one instant of the deadline
  and at no later instant.
\<close>

lemma time_Until_zero_iff: "time_Until now t = 0 \<longleftrightarrow> t = now"
proof -
  have "time_Until now t = 0 \<longleftrightarrow> sint (time_Until now t) = 0"
    using signed_eq_0_iff [where ?'a = int and w = "time_Until now t"] by simp
  also have "\<dots> \<longleftrightarrow> t = now"
    by (simp add: time_Until_def Time_Sub_sint max_def min_def)
  finally show ?thesis .
qed

subsection \<open>Claims about certificateNeedsRenewal\<close>

text \<open>
  C1. For a stored certificate that parses, \<^verbatim>\<open>certificateNeedsRenewal\<close> returns true at every
  instant \<open>now\<close> with \<open>now \<ge> NotAfter - renewBefore\<close>, the deadline itself and every later
  instant. (At the deadline the test of line 152 answers; after it, the comparison of the
  serial numbers on line 157 does.)
\<close>

theorem certificateNeedsRenewal_from_deadline:
  assumes "fst (ParseCertificate L h (Certificate (Status issuer))) = Inr actualCert"
    and "RenewBefore (Spec issuer) = Some rb"
    and "ptr_valid h (SerialNumber desiredCert)"
    and "NotAfter actualCert - sint rb \<le> now"
  shows "certificateNeedsRenewal L h now issuer desiredCert = Some True"
  using assms by (simp add: needsRenewal_value)

theorem certificateNeedsRenewal_from_deadline_witness:
  "fst (ParseCertificate example_Libs [7] (Certificate (Status example_issuer))) =
      Inr \<lparr>Raw = [5, 7], NotAfter = 5000, SerialNumber = Some 1\<rparr>
   \<and> RenewBefore (Spec example_issuer) = Some 1000
   \<and> ptr_valid [7] (Some 0)
   \<and> (5000 :: int) - sint (1000 :: time_Duration) \<le> 4500
   \<and> certificateNeedsRenewal example_Libs [7] 4500 example_issuer
        \<lparr>Raw = [], NotAfter = 9000, SerialNumber = Some 0\<rparr> = Some True"
proof -
  have p: "fst (ParseCertificate example_Libs [7] (Certificate (Status example_issuer))) =
      Inr \<lparr>Raw = [5, 7], NotAfter = 5000, SerialNumber = Some 1\<rparr>"
    by (simp add: example_issuer_def example_parse)
  have r: "RenewBefore (Spec example_issuer) = Some 1000"
    by (simp add: example_issuer_def)
  have v: "ptr_valid [7] (SerialNumber \<lparr>Raw = [], NotAfter = 9000, SerialNumber = Some 0\<rparr>)"
    by (simp add: ptr_valid_def)
  have d: "NotAfter \<lparr>Raw = [5, 7], NotAfter = 5000, SerialNumber = Some 1\<rparr>
      - sint (1000 :: time_Duration) \<le> 4500"
    by simp
  from certificateNeedsRenewal_from_deadline [OF p r v d] p r v show ?thesis
    by simp
qed

text \<open>
  C4. The claim: before the deadline, \<^verbatim>\<open>certificateNeedsRenewal\<close> returns false when the two
  serial numbers have the same value. Here the stored certificate parses, its serial number
  and the desired one are both 7 (in the cells 1 and 0 of the store), the deadline is 3000
  nanoseconds away, and the function returns true.
\<close>

theorem certificateNeedsRenewal_equal_serial_values:
  "fst (ParseCertificate example_Libs [7] (Certificate (Status example_issuer))) =
      Inr \<lparr>Raw = [5, 7], NotAfter = 5000, SerialNumber = Some 1\<rparr>
   \<and> bigint_value [7, 7] (Some 1) = Some 7 \<and> bigint_value [7, 7] (Some 0) = Some 7
   \<and> sint (time_Until 1000 (Time_Add 5000 (- 1 * 1000))) = 3000
   \<and> certificateNeedsRenewal example_Libs [7] 1000 example_issuer
        \<lparr>Raw = [], NotAfter = 9000, SerialNumber = Some 0\<rparr> = Some True"
  by (simp add: example_issuer_def example_parse bigint_value_def time_Until_def Time_Add_def
      Time_Sub_def certificateNeedsRenewal_def)

text \<open>
  C5. Two calls of \<^verbatim>\<open>certificateNeedsRenewal\<close> with the same stored certificate bytes, the
  same \<^verbatim>\<open>renewBefore\<close> and desired certificates with the same \<^verbatim>\<open>NotAfter\<close> and the same serial
  number value give the same answer, at whatever instants \<open>now1\<close> and \<open>now2\<close> and in
  whatever stores they run.
\<close>

theorem certificateNeedsRenewal_same_answer:
  assumes "Certificate (Status issuer1) = Certificate (Status issuer2)"
    and "RenewBefore (Spec issuer1) = RenewBefore (Spec issuer2)"
    and "ptr_valid h1 (SerialNumber desired1)" and "ptr_valid h2 (SerialNumber desired2)"
    and "NotAfter desired1 = NotAfter desired2"
    and "bigint_value h1 (SerialNumber desired1) = bigint_value h2 (SerialNumber desired2)"
  shows "certificateNeedsRenewal L h1 now1 issuer1 desired1 =
         certificateNeedsRenewal L h2 now2 issuer2 desired2"
  using assms(1-4) parse_error_any_store [of L h1 "Certificate (Status issuer2)" h2]
  by (simp add: needsRenewal_value)

theorem certificateNeedsRenewal_same_answer_witness:
  "Certificate (Status example_issuer) =
     Certificate (Status (example_issuer\<lparr>Spec := (Spec example_issuer)\<lparr>CommonName := ''b''\<rparr>\<rparr>))
   \<and> RenewBefore (Spec example_issuer) =
     RenewBefore (Spec (example_issuer\<lparr>Spec := (Spec example_issuer)\<lparr>CommonName := ''b''\<rparr>\<rparr>))
   \<and> ptr_valid [7] (Some 0) \<and> ptr_valid [3, 7] (Some 1)
   \<and> bigint_value [7] (Some 0) = bigint_value [3, 7] (Some 1)
   \<and> certificateNeedsRenewal example_Libs [7] 1000 example_issuer
        \<lparr>Raw = [], NotAfter = 9000, SerialNumber = Some 0\<rparr> =
      certificateNeedsRenewal example_Libs [3, 7] 4000
        (example_issuer\<lparr>Spec := (Spec example_issuer)\<lparr>CommonName := ''b''\<rparr>\<rparr>)
        \<lparr>Raw = [], NotAfter = 9000, SerialNumber = Some 1\<rparr>"
proof -
  let ?issuer2 = "example_issuer\<lparr>Spec := (Spec example_issuer)\<lparr>CommonName := ''b''\<rparr>\<rparr>"
  have c: "Certificate (Status example_issuer) = Certificate (Status ?issuer2)"
    and r: "RenewBefore (Spec example_issuer) = RenewBefore (Spec ?issuer2)"
    by simp_all
  have v1: "ptr_valid [7] (SerialNumber \<lparr>Raw = [], NotAfter = 9000, SerialNumber = Some 0\<rparr>)"
    by (simp add: ptr_valid_def)
  have v2: "ptr_valid [3, 7] (SerialNumber \<lparr>Raw = [], NotAfter = 9000, SerialNumber = Some 1\<rparr>)"
    by (simp add: ptr_valid_def)
  have n: "NotAfter \<lparr>Raw = [], NotAfter = 9000, SerialNumber = Some 0\<rparr> =
      NotAfter \<lparr>Raw = [], NotAfter = 9000, SerialNumber = Some 1\<rparr>"
    by simp
  have b: "bigint_value [7] (SerialNumber \<lparr>Raw = [], NotAfter = 9000, SerialNumber = Some 0\<rparr>) =
      bigint_value [3, 7] (SerialNumber \<lparr>Raw = [], NotAfter = 9000, SerialNumber = Some 1\<rparr>)"
    by (simp add: bigint_value_def)
  from certificateNeedsRenewal_same_answer [OF c r v1 v2 n b, of example_Libs 1000 4000] c r v1 v2 b
  show ?thesis
    by simp
qed

section \<open>The status reporter\<close>

text \<open>
  \<^verbatim>\<open>SetCondition\<close> puts the new condition where a look-up by type finds it, and leaves the
  conditions of other types as they are.
\<close>

lemma SetCondition_find:
  "\<exists>c'. find (\<lambda>x. Type x = Type c) (SetCondition c xs) = Some c' \<and>
     CondStatus c' = CondStatus c \<and> Reason c' = Reason c \<and> Message c' = Message c"
  by (induction xs) auto

lemma readyCondition_set:
  "\<exists>c. readyCondition (st\<lparr>Conditions :=
        SetCondition (NewCondition now ConditionReady status reason message) (Conditions st)\<rparr>)
       = Some c \<and> CondStatus c = status \<and> Reason c = reason \<and> Message c = message"
  using SetCondition_find [of "NewCondition now ConditionReady status reason message" "Conditions st"]
  by (auto simp add: readyCondition_def NewCondition_def)

lemma Status_Update_fst: "fst (Status_Update i w) = next_update_result w"
  by (simp add: Status_Update_def Let_def split: option.splits)

lemma Status_Update_updates:
  "updates (snd (Status_Update i w)) = updates w @ [(Status i, next_update_result w)]"
  by (simp add: Status_Update_def Let_def split: option.splits)

lemma Status_Update_events: "events (snd (Status_Update i w)) = events w"
  by (simp add: Status_Update_def Let_def split: option.splits)

lemma Status_Update_stored:
  "stored (snd (Status_Update i w)) =
     (if next_update_result w = None then map_option (\<lambda>x. x\<lparr>Status := Status i\<rparr>) (stored w)
      else stored w)"
  by (simp add: Status_Update_def Let_def split: option.splits)

lemma Status_Update_results:
  "update_results (snd (Status_Update i w)) = tl (update_results w)"
  by (simp add: Status_Update_def Let_def split: option.splits)

lemma manageFailure_fst: "fst (manageFailure clk i e m w) = next_update_result w"
  by (simp add: manageFailure_def Let_def Status_Update_fst Recorder_Event_def
      next_update_result_def)

lemma manageFailure_events:
  "events (snd (manageFailure clk i e m w)) = events w @ [(EventTypeWarning, KMSIssuerReasonFailed, m)]"
  by (simp add: manageFailure_def Let_def Status_Update_events Recorder_Event_def)

lemma manageFailure_updates:
  "\<exists>st c. updates (snd (manageFailure clk i e m w)) = updates w @ [(st, next_update_result w)] \<and>
     Certificate st = Certificate (Status i) \<and> readyCondition st = Some c \<and>
     CondStatus c = ConditionFalse \<and> Reason c = KMSIssuerReasonFailed \<and> Message c = m"
  by (simp add: manageFailure_def Let_def Status_Update_updates Recorder_Event_def
      next_update_result_def readyCondition_set)

lemma manageFailure_stored:
  "map_option (\<lambda>x. Certificate (Status x)) (stored (snd (manageFailure clk i e m w))) =
     (if next_update_result w = None then map_option (\<lambda>x. Certificate (Status i)) (stored w)
      else map_option (\<lambda>x. Certificate (Status x)) (stored w))"
  by (simp add: manageFailure_def Let_def Status_Update_stored Recorder_Event_def
      next_update_result_def option.map_comp comp_def)

lemma manageSuccess_fst: "fst (manageSuccess clk i w) = next_update_result w"
  by (simp add: manageSuccess_def Let_def Status_Update_fst Recorder_Event_def
      next_update_result_def)

lemma manageSuccess_events:
  "events (snd (manageSuccess clk i w)) = events w @ [(EventTypeNormal, KMSIssuerReasonIssued, [])]"
  by (simp add: manageSuccess_def Let_def Status_Update_events Recorder_Event_def)

lemma manageSuccess_updates:
  "\<exists>st c. updates (snd (manageSuccess clk i w)) = updates w @ [(st, next_update_result w)] \<and>
     Certificate st = Certificate (Status i) \<and> readyCondition st = Some c \<and>
     CondStatus c = ConditionTrue \<and> Reason c = KMSIssuerReasonIssued \<and> Message c = []"
  by (simp add: manageSuccess_def Let_def Status_Update_updates Recorder_Event_def
      next_update_result_def readyCondition_set)

lemma SetCondition_others:
  "filter (\<lambda>x. Type x \<noteq> Type c) (SetCondition c xs) = filter (\<lambda>x. Type x \<noteq> Type c) xs"
  by (induction xs) auto

lemma manageFailure_others:
  "\<exists>st. updates (snd (manageFailure clk i e m w)) = updates w @ [(st, next_update_result w)] \<and>
     filter (\<lambda>x. Type x \<noteq> ConditionReady) (Conditions st) =
     filter (\<lambda>x. Type x \<noteq> ConditionReady) (Conditions (Status i))"
  using SetCondition_others
    [of "NewCondition (now_condition clk) ConditionReady ConditionFalse KMSIssuerReasonFailed m"
        "Conditions (Status i)"]
  by (simp add: manageFailure_def Let_def Status_Update_updates Recorder_Event_def
      next_update_result_def NewCondition_def)

lemma manageFailure_one_write:
  "\<exists>st. updates (snd (manageFailure clk i e m v)) = updates v @ [(st, next_update_result v)] \<and>
     Certificate st = Certificate (Status i) \<and> readyCondition st \<noteq> None"
  using manageFailure_updates [of clk i e m v] by auto

lemma manageSuccess_one_write:
  "\<exists>st. updates (snd (manageSuccess clk i v)) = updates v @ [(st, next_update_result v)] \<and>
     Certificate st = Certificate (Status i) \<and> readyCondition st \<noteq> None"
  using manageSuccess_updates [of clk i v] by auto

section \<open>Reconcile\<close>

lemma client_Get_stored: "client_Get w = Inr issuer0 \<Longrightarrow> stored w = Some issuer0"
  by (auto simp add: client_Get_def split: option.splits)

lemma preview_facts:
  assumes "GenerateCertificateAuthorityCertificate L h0 certInput = (d, h)"
  shows "ptr_valid h (SerialNumber d)" and "NotAfter d = fst (kmsca_preview L certInput)"
    and "bigint_value h (SerialNumber d) = Some (snd (kmsca_preview L certInput))"
  using assms
  by (auto simp add: GenerateCertificateAuthorityCertificate_def new_bigint_def ptr_valid_def
      bigint_value_def split: prod.splits)

lemma Reconcile_invalid_key:
  assumes "client_Get w = Inr issuer0" and "KeyID (Spec issuer0) = []"
  shows "Reconcile L clk w =
     Some ((emptyResult,
            fst (manageFailure clk issuer0 (ErrorString ''INVALID KeyId'') ''Not a valid key: '' w)),
           snd (manageFailure clk issuer0 (ErrorString ''INVALID KeyId'') ''Not a valid key: '' w))"
  using assms by (simp add: Reconcile_def split: prod.splits)

lemma Reconcile_sign_failed:
  assumes "client_Get w = Inr issuer0" and "KeyID (Spec issuer0) \<noteq> []"
    and "setIssuerDefaultValues issuer0 = Some issuer"
    and "desiredCertificateAuthorityCertificateInput issuer = Some certInput"
    and "GenerateCertificateAuthorityCertificate L (bigints w) certInput = (desiredCert, h)"
    and "certificateNeedsRenewal L h (now_decision clk) issuer desiredCert = Some True"
    and "kmsca_sign L certInput = Inl err"
  shows "Reconcile L clk w =
     Some ((emptyResult,
            fst (manageFailure clk issuer err
                   ''Failed to generate the Certificate Authority Certificate'' (w\<lparr>bigints := h\<rparr>))),
           snd (manageFailure clk issuer err
                   ''Failed to generate the Certificate Authority Certificate'' (w\<lparr>bigints := h\<rparr>)))"
  using assms by (simp add: Reconcile_def Let_def split: prod.splits)

lemma Reconcile_update_failed:
  assumes "client_Get w = Inr issuer0" and "KeyID (Spec issuer0) \<noteq> []"
    and "setIssuerDefaultValues issuer0 = Some issuer"
    and "desiredCertificateAuthorityCertificateInput issuer = Some certInput"
    and "GenerateCertificateAuthorityCertificate L (bigints w) certInput = (desiredCert, h)"
    and "certificateNeedsRenewal L h (now_decision clk) issuer desiredCert = Some True"
    and "kmsca_sign L certInput = Inr raw"
    and "issuer1 = issuer\<lparr>Status := (Status issuer)
            \<lparr>Certificate := pem_EncodeToMemory L ''CERTIFICATE'' raw\<rparr>\<rparr>"
    and "next_update_result w = Some err"
  shows "Reconcile L clk w =
     Some ((emptyResult,
            fst (manageFailure clk issuer1 err
                   ''Failed to update the issuer with the issued Certificate''
                   (snd (Status_Update issuer1 (w\<lparr>bigints := h\<rparr>))))),
           snd (manageFailure clk issuer1 err
                   ''Failed to update the issuer with the issued Certificate''
                   (snd (Status_Update issuer1 (w\<lparr>bigints := h\<rparr>)))))"
proof -
  have "fst (Status_Update issuer1 (w\<lparr>bigints := h\<rparr>)) = Some err"
    using assms(9) by (simp add: Status_Update_fst next_update_result_def)
  then obtain w2 where "Status_Update issuer1 (w\<lparr>bigints := h\<rparr>) = (Some err, w2)"
    by (cases "Status_Update issuer1 (w\<lparr>bigints := h\<rparr>)") simp
  then show ?thesis
    using assms(1-8) by (simp add: Reconcile_def Let_def split: prod.splits)
qed

lemma Reconcile_signed:
  assumes "client_Get w = Inr issuer0" and "KeyID (Spec issuer0) \<noteq> []"
    and "setIssuerDefaultValues issuer0 = Some issuer"
    and "desiredCertificateAuthorityCertificateInput issuer = Some certInput"
    and "GenerateCertificateAuthorityCertificate L (bigints w) certInput = (desiredCert, h)"
    and "certificateNeedsRenewal L h (now_decision clk) issuer desiredCert = Some True"
    and "kmsca_sign L certInput = Inr raw"
    and "issuer1 = issuer\<lparr>Status := (Status issuer)
            \<lparr>Certificate := pem_EncodeToMemory L ''CERTIFICATE'' raw\<rparr>\<rparr>"
    and "next_update_result w = None"
  shows "Reconcile L clk w =
     reconcileDone clk issuer1 desiredCert (snd (Status_Update issuer1 (w\<lparr>bigints := h\<rparr>)))"
proof -
  have "fst (Status_Update issuer1 (w\<lparr>bigints := h\<rparr>)) = None"
    using assms(9) by (simp add: Status_Update_fst next_update_result_def)
  then obtain w2 where "Status_Update issuer1 (w\<lparr>bigints := h\<rparr>) = (None, w2)"
    by (cases "Status_Update issuer1 (w\<lparr>bigints := h\<rparr>)") simp
  then show ?thesis
    using assms(1-8) by (simp add: Reconcile_def Let_def split: prod.splits)
qed

lemma Reconcile_skipped:
  assumes "client_Get w = Inr issuer0" and "KeyID (Spec issuer0) \<noteq> []"
    and "setIssuerDefaultValues issuer0 = Some issuer"
    and "desiredCertificateAuthorityCertificateInput issuer = Some certInput"
    and "GenerateCertificateAuthorityCertificate L (bigints w) certInput = (desiredCert, h)"
    and "certificateNeedsRenewal L h (now_decision clk) issuer desiredCert = Some False"
  shows "Reconcile L clk w = reconcileDone clk issuer desiredCert (w\<lparr>bigints := h\<rparr>)"
  using assms by (simp add: Reconcile_def Let_def split: prod.splits)

lemma reconcileDone_eq:
  assumes "RenewBefore (Spec i) = Some rb"
  shows "reconcileDone clk i d w =
     Some ((\<lparr>Requeue = False,
             RequeueAfter = time_Until (now_requeue clk) (Time_Add (NotAfter d) (- 1 * rb))\<rparr>,
            fst (manageSuccess clk i w)),
           snd (manageSuccess clk i w))"
  using assms by (simp add: reconcileDone_def requeueAfter_def split: prod.splits)

text \<open>No run of \<^verbatim>\<open>Reconcile\<close> dereferences a nil \<^verbatim>\<open>Duration\<close> or \<^verbatim>\<open>RenewBefore\<close>.\<close>

lemma desiredInput_Some:
  "Duration (Spec i) \<noteq> None \<Longrightarrow> RenewBefore (Spec i) \<noteq> None \<Longrightarrow>
     desiredCertificateAuthorityCertificateInput i \<noteq> None"
  by (auto simp add: desiredCertificateAuthorityCertificateInput_def)

lemma requeueAfter_Some:
  "RenewBefore (Spec i) \<noteq> None \<Longrightarrow> requeueAfter now i d \<noteq> None"
  by (auto simp add: requeueAfter_def)

lemma reconcileDone_Some:
  "RenewBefore (Spec i) \<noteq> None \<Longrightarrow> reconcileDone clk i d w \<noteq> None"
  by (auto simp add: reconcileDone_def requeueAfter_def split: prod.splits)

lemma Reconcile_Some: "Reconcile L clk w \<noteq> None"
proof (cases "client_Get w")
  case (Inl err)
  then show ?thesis by (simp add: Reconcile_def)
next
  case (Inr issuer0)
  show ?thesis
  proof (cases "KeyID (Spec issuer0) = []")
    case True
    with Inr show ?thesis by (simp add: Reconcile_def split: prod.splits)
  next
    case False
    obtain issuer where i: "setIssuerDefaultValues issuer0 = Some issuer"
      using setIssuerDefaultValues_Some [of issuer0] by auto
    have rb: "RenewBefore (Spec issuer) \<noteq> None"
      using setIssuerDefaultValues_fields(2) [OF i] .
    obtain certInput where c: "desiredCertificateAuthorityCertificateInput issuer = Some certInput"
      using desiredInput_Some [OF setIssuerDefaultValues_fields(1) [OF i] rb] by auto
    obtain desiredCert h where
      g: "GenerateCertificateAuthorityCertificate L (bigints w) certInput = (desiredCert, h)"
      by (cases "GenerateCertificateAuthorityCertificate L (bigints w) certInput")
    obtain b where n: "certificateNeedsRenewal L h (now_decision clk) issuer desiredCert = Some b"
      using certificateNeedsRenewal_Some [OF rb, of L h "now_decision clk" desiredCert] by blast
    have rb': "RenewBefore (Spec (issuer\<lparr>Status := s\<rparr>)) \<noteq> None" for s
      using rb by simp
    show ?thesis
      using Inr False i c g n reconcileDone_Some [OF rb] reconcileDone_Some [OF rb']
      by (simp add: Reconcile_def Let_def split: prod.splits sum.splits bool.splits option.splits)
  qed
qed

text \<open>The run in which nothing fails.\<close>

lemma manageSuccess_None:
  "next_update_result w = None \<Longrightarrow> fst (manageSuccess clk i w) = None"
  by (simp add: manageSuccess_fst)

lemma next_two_results:
  assumes "list_all (\<lambda>r. r = None) (take 2 (update_results w))"
  shows "next_update_result w = None"
    and "next_update_result (snd (Status_Update i (w\<lparr>bigints := h\<rparr>))) = None"
proof -
  show "next_update_result w = None"
    using assms by (cases "update_results w") (simp_all add: next_update_result_def)
  have "update_results (snd (Status_Update i (w\<lparr>bigints := h\<rparr>))) = tl (update_results w)"
    by (simp add: Status_Update_results)
  then show "next_update_result (snd (Status_Update i (w\<lparr>bigints := h\<rparr>))) = None"
    using assms
    by (cases "update_results w"; cases "tl (update_results w)")
       (simp_all add: next_update_result_def)
qed

lemma Reconcile_success:
  assumes get: "client_Get w = Inr issuer0"
    and key: "KeyID (Spec issuer0) \<noteq> []"
    and dfl: "setIssuerDefaultValues issuer0 = Some issuer"
    and rbv: "RenewBefore (Spec issuer) = Some rb"
    and inp: "desiredCertificateAuthorityCertificateInput issuer = Some certInput"
    and pre: "GenerateCertificateAuthorityCertificate L (bigints w) certInput = (desiredCert, h)"
    and signed: "certificateNeedsRenewal L h (now_decision clk) issuer desiredCert = Some False \<or>
       (certificateNeedsRenewal L h (now_decision clk) issuer desiredCert = Some True \<and>
        (\<exists>raw. kmsca_sign L certInput = Inr raw))"
    and persisted: "list_all (\<lambda>r. r = None) (take 2 (update_results w))"
  shows "\<exists>w'. Reconcile L clk w =
     Some ((\<lparr>Requeue = False,
             RequeueAfter = time_Until (now_requeue clk) (Time_Add (NotAfter desiredCert) (- 1 * rb))\<rparr>,
            None), w')"
proof -
  let ?w1 = "w\<lparr>bigints := h\<rparr>"
  have n1: "next_update_result ?w1 = None"
    using next_two_results(1) [OF persisted] by (simp add: next_update_result_def)
  from signed show ?thesis
  proof
    assume "certificateNeedsRenewal L h (now_decision clk) issuer desiredCert = Some False"
    then have "Reconcile L clk w = reconcileDone clk issuer desiredCert ?w1"
      using Reconcile_skipped [OF get key dfl inp pre] by simp
    then show ?thesis
      using reconcileDone_eq [OF rbv, of clk desiredCert ?w1] manageSuccess_None [OF n1, of clk issuer]
      by simp
  next
    assume a: "certificateNeedsRenewal L h (now_decision clk) issuer desiredCert = Some True \<and>
        (\<exists>raw. kmsca_sign L certInput = Inr raw)"
    then obtain raw where raw: "kmsca_sign L certInput = Inr raw"
      by blast
    define issuer1 where "issuer1 = issuer\<lparr>Status := (Status issuer)
            \<lparr>Certificate := pem_EncodeToMemory L ''CERTIFICATE'' raw\<rparr>\<rparr>"
    let ?w2 = "snd (Status_Update issuer1 ?w1)"
    have rb1: "RenewBefore (Spec issuer1) = Some rb"
      using rbv by (simp add: issuer1_def)
    have n2: "next_update_result ?w2 = None"
      using next_two_results(2) [OF persisted] .
    have "Reconcile L clk w = reconcileDone clk issuer1 desiredCert ?w2"
      using Reconcile_signed [OF get key dfl inp pre _ raw issuer1_def next_two_results(1) [OF persisted]] a
      by blast
    then show ?thesis
      using reconcileDone_eq [OF rb1, of clk desiredCert ?w2] manageSuccess_None [OF n2, of clk issuer1]
      by simp
  qed
qed

lemma sint_minus_64:
  assumes "rb \<noteq> minDuration"
  shows "sint (- rb :: time_Duration) = - sint rb"
proof -
  have "sint rb \<noteq> sint minDuration"
    using assms signed_word_eqI [where ?'a = int and v = rb and w = minDuration] by blast
  then have "- (2 ^ 63) < sint rb"
    using sint_ge [of rb] by (simp add: minDuration_sint)
  moreover have "sint rb < 2 ^ 63"
    using sint_lt [of rb] by simp
  ultimately have "sint (word_of_int (- sint rb) :: time_Duration) = - sint rb"
    using sint_word_of_int_64 [of "- sint rb"] by simp
  then show ?thesis
    by simp
qed

subsection \<open>The example run\<close>

lemmas model_defs = Reconcile_def client_Get_def manageFailure_def manageSuccess_def
  Status_Update_def next_update_result_def Recorder_Event_def NewCondition_def
  setIssuerDefaultValues_def desiredCertificateAuthorityCertificateInput_def
  GenerateCertificateAuthorityCertificate_def new_bigint_def certificateNeedsRenewal_def
  ParseCertificate_def x509_ParseCertificate_def reconcileDone_def requeueAfter_def
  time_Until_def Time_Add_def Time_Sub_def emptyResult_def Let_def

lemmas example_defs = example_World_def example_issuer_def example_Libs_def example_Clock_def
  Hour_def example_certInput_def example_desiredCert_def example_Libs_sign_fails_def

lemma example_get: "client_Get example_World = Inr example_issuer"
  by (simp add: client_Get_def example_World_def)

lemma example_key: "KeyID (Spec example_issuer) \<noteq> []"
  by (simp add: example_issuer_def)

lemma example_defaults: "setIssuerDefaultValues example_issuer = Some example_issuer"
  by (simp add: setIssuerDefaultValues_def Let_def example_issuer_def Hour_def)

lemma example_renewBefore: "RenewBefore (Spec example_issuer) = Some 1000"
  by (simp add: example_issuer_def)

lemma example_input:
  "desiredCertificateAuthorityCertificateInput example_issuer = Some example_certInput"
  by (simp add: desiredCertificateAuthorityCertificateInput_def example_issuer_def
      example_certInput_def)

lemma example_preview:
  "GenerateCertificateAuthorityCertificate example_Libs (bigints example_World) example_certInput =
     (example_desiredCert, [7])"
  "GenerateCertificateAuthorityCertificate example_Libs_sign_fails (bigints example_World)
     example_certInput = (example_desiredCert, [7])"
  by (simp_all add: GenerateCertificateAuthorityCertificate_def new_bigint_def example_defs)

lemma example_needed:
  "certificateNeedsRenewal example_Libs [7] (now_decision example_Clock) example_issuer
     example_desiredCert = Some True"
  "certificateNeedsRenewal example_Libs_sign_fails [7] (now_decision example_Clock) example_issuer
     example_desiredCert = Some True"
  by (simp_all add: certificateNeedsRenewal_def ParseCertificate_def x509_ParseCertificate_def
      new_bigint_def time_Until_def Time_Add_def Time_Sub_def example_defs)

lemma example_sign:
  "kmsca_sign example_Libs example_certInput = Inr [9, 7]"
  "kmsca_sign example_Libs_sign_fails example_certInput = Inl (ErrorString ''kms: access denied'')"
  by (simp_all add: example_defs)

subsection \<open>Claims about Reconcile\<close>

text \<open>
  C10. After \<^verbatim>\<open>setIssuerDefaultValues\<close> the fields \<^verbatim>\<open>Duration\<close> and \<^verbatim>\<open>RenewBefore\<close> of the spec
  are both non-nil, for every issuer, so \<^verbatim>\<open>desiredCertificateAuthorityCertificateInput\<close>,
  \<^verbatim>\<open>certificateNeedsRenewal\<close> and the requeue computation find them set, and no run of
  \<^verbatim>\<open>Reconcile\<close> ends in a nil dereference of one of them.
\<close>

theorem no_nil_dereference:
  "(\<exists>i. setIssuerDefaultValues issuer = Some i \<and>
        Duration (Spec i) \<noteq> None \<and> RenewBefore (Spec i) \<noteq> None \<and>
        desiredCertificateAuthorityCertificateInput i \<noteq> None \<and>
        certificateNeedsRenewal L h now i desiredCert \<noteq> None \<and>
        requeueAfter now' i desiredCert \<noteq> None) \<and>
   Reconcile L clk w \<noteq> None"
proof -
  obtain i where i: "setIssuerDefaultValues issuer = Some i"
    using setIssuerDefaultValues_Some [of issuer] by blast
  have d: "Duration (Spec i) \<noteq> None" and rb: "RenewBefore (Spec i) \<noteq> None"
    using setIssuerDefaultValues_fields(1,2) [OF i] by blast+
  show ?thesis
    using i d rb desiredInput_Some [OF d rb] certificateNeedsRenewal_Some [OF rb]
      requeueAfter_Some [OF rb] Reconcile_Some [of L clk w]
    by blast
qed

text \<open>
  C9. When renewal is needed and the signing call fails, \<^verbatim>\<open>Reconcile\<close> goes through
  \<^verbatim>\<open>manageFailure\<close>: a warning event is recorded, one status is written, with the certificate
  bytes the resource had before the run, the conditions of other types untouched and the
  Ready condition false with reason Failed; the stored certificate bytes are after the run
  what they were before it, whether that write succeeds or not.
\<close>

theorem Reconcile_signing_failure:
  assumes get: "client_Get w = Inr issuer0"
    and key: "KeyID (Spec issuer0) \<noteq> []"
    and dfl: "setIssuerDefaultValues issuer0 = Some issuer"
    and inp: "desiredCertificateAuthorityCertificateInput issuer = Some certInput"
    and pre: "GenerateCertificateAuthorityCertificate L (bigints w) certInput = (desiredCert, h)"
    and needed: "certificateNeedsRenewal L h (now_decision clk) issuer desiredCert = Some True"
    and sign: "kmsca_sign L certInput = Inl err"
  shows "\<exists>w' st c. Reconcile L clk w = Some ((emptyResult, next_update_result w), w') \<and>
     map_option (\<lambda>i. Certificate (Status i)) (stored w) = Some (Certificate (Status issuer0)) \<and>
     map_option (\<lambda>i. Certificate (Status i)) (stored w') = Some (Certificate (Status issuer0)) \<and>
     updates w' = updates w @ [(st, next_update_result w)] \<and>
     Certificate st = Certificate (Status issuer0) \<and>
     filter (\<lambda>x. Type x \<noteq> ConditionReady) (Conditions st) =
       filter (\<lambda>x. Type x \<noteq> ConditionReady) (Conditions (Status issuer0)) \<and>
     readyCondition st = Some c \<and> CondStatus c = ConditionFalse \<and>
     Reason c = KMSIssuerReasonFailed \<and>
     Message c = ''Failed to generate the Certificate Authority Certificate'' \<and>
     events w' = events w @ [(EventTypeWarning, KMSIssuerReasonFailed,
       ''Failed to generate the Certificate Authority Certificate'')]"
proof -
  let ?m = "''Failed to generate the Certificate Authority Certificate''"
  let ?w1 = "w\<lparr>bigints := h\<rparr>"
  let ?w' = "snd (manageFailure clk issuer err ?m ?w1)"
  have st: "Status issuer = Status issuer0"
    using setIssuerDefaultValues_fields(3) [OF dfl] .
  have nxt: "next_update_result ?w1 = next_update_result w"
    by (simp add: next_update_result_def)
  have run: "Reconcile L clk w = Some ((emptyResult, next_update_result w), ?w')"
    using Reconcile_sign_failed [OF get key dfl inp pre needed sign]
    by (simp add: manageFailure_fst nxt)
  have before: "map_option (\<lambda>i. Certificate (Status i)) (stored w) = Some (Certificate (Status issuer0))"
    using client_Get_stored [OF get] by simp
  have after: "map_option (\<lambda>i. Certificate (Status i)) (stored ?w') = Some (Certificate (Status issuer0))"
    using manageFailure_stored [of clk issuer err ?m ?w1] client_Get_stored [OF get] st
    by simp
  obtain st1 c where w1: "updates ?w' = updates ?w1 @ [(st1, next_update_result ?w1)]"
    and c1: "Certificate st1 = Certificate (Status issuer)" "readyCondition st1 = Some c"
      "CondStatus c = ConditionFalse" "Reason c = KMSIssuerReasonFailed" "Message c = ?m"
    using manageFailure_updates [of clk issuer err ?m ?w1] by blast
  obtain st2 where w2: "updates ?w' = updates ?w1 @ [(st2, next_update_result ?w1)]"
    and o2: "filter (\<lambda>x. Type x \<noteq> ConditionReady) (Conditions st2) =
       filter (\<lambda>x. Type x \<noteq> ConditionReady) (Conditions (Status issuer))"
    using manageFailure_others [of clk issuer err ?m ?w1] by blast
  from w1 w2 have same: "st2 = st1"
    by simp
  have ev: "events ?w' = events w @ [(EventTypeWarning, KMSIssuerReasonFailed, ?m)]"
    by (simp add: manageFailure_events)
  from w1 have upd: "updates ?w' = updates w @ [(st1, next_update_result w)]"
    by (simp add: nxt)
  show ?thesis
    using run before after upd c1 o2 ev st same by auto
qed

theorem Reconcile_signing_failure_witness:
  "client_Get example_World = Inr example_issuer \<and>
   KeyID (Spec example_issuer) \<noteq> [] \<and>
   certificateNeedsRenewal example_Libs_sign_fails [7] (now_decision example_Clock) example_issuer
     example_desiredCert = Some True \<and>
   kmsca_sign example_Libs_sign_fails example_certInput = Inl (ErrorString ''kms: access denied'') \<and>
   (\<exists>w' st c. Reconcile example_Libs_sign_fails example_Clock example_World =
        Some ((emptyResult, None), w') \<and>
      map_option (\<lambda>i. Certificate (Status i)) (stored example_World) = Some [45, 5, 7] \<and>
      map_option (\<lambda>i. Certificate (Status i)) (stored w') = Some [45, 5, 7] \<and>
      updates w' = [(st, None)] \<and> Certificate st = [45, 5, 7] \<and>
      readyCondition st = Some c \<and> CondStatus c = ConditionFalse)"
proof -
  have n: "next_update_result example_World = None"
    by (simp add: next_update_result_def example_World_def)
  have u: "updates example_World = []"
    by (simp add: example_World_def)
  have c: "Certificate (Status example_issuer) = [45, 5, 7]"
    by (simp add: example_issuer_def)
  from Reconcile_signing_failure [OF example_get example_key example_defaults example_input
      example_preview(2) example_needed(2) example_sign(2)]
  show ?thesis
    using example_get example_key example_needed(2) example_sign(2)
    by (auto simp add: n u c)
qed

text \<open>
  C7, as stated: on every successful run the requeue delay equals
  \<open>desired.NotAfter - renewBefore - now\<close>. In the example world with the long-lived issuer
  the run succeeds, the desired certificate expires at 9223372036854776807, \<^verbatim>\<open>renewBefore\<close>
  is -3600000000000 after defaulting and the clock reads 2000: the difference is
  9223375636854774807 nanoseconds, more than a \<^verbatim>\<open>time.Duration\<close> holds, and \<^verbatim>\<open>Reconcile\<close>
  returns the largest duration, 9223372036854775807.
\<close>

theorem Reconcile_requeue_saturates:
  "map_option (\<lambda>i. (map_option sint (Duration (Spec i)), map_option sint (RenewBefore (Spec i))))
     (setIssuerDefaultValues example_issuer_long) =
     Some (Some 9223372036854775807, Some (- 3600000000000)) \<and>
   fst (kmsca_preview example_Libs
     \<lparr>InputKeyID = ''k1'', SubjectCommonName = ''ca.example'',
      InputDuration = maxDuration, Rounding = maxDuration - (- Hour)\<rparr>) = 9223372036854776807 \<and>
   now_requeue example_Clock = 2000 \<and>
   map_option (\<lambda>r. (snd (fst r), sint (RequeueAfter (fst (fst r)))))
     (Reconcile example_Libs example_Clock example_World_long) =
     Some (None, 9223372036854775807) \<and>
   (9223372036854776807 :: int) - (- 3600000000000) - 2000 = 9223375636854774807"
  by (simp add: model_defs example_defs example_issuer_long_def example_World_long_def
      maxDuration_def minDuration_def)

text \<open>
  C7, amended. On a run where validation passes, the signing (if any) succeeds and the status
  writes succeed, \<^verbatim>\<open>Reconcile\<close> returns a nil error and the requeue delay
  \<open>desired.NotAfter - renewBefore - now\<close>, with \<^verbatim>\<open>renewBefore\<close> as it is after defaulting and
  \<open>now\<close> the reading of the clock taken for it, whenever \<^verbatim>\<open>renewBefore\<close> is not the smallest
  duration and the difference fits in a \<^verbatim>\<open>time.Duration\<close>; the delay is returned as it is, also
  when it is zero or negative. (Lemma \<open>Reconcile_success\<close> gives the delay of every such run
  in Go's own terms.)
\<close>

theorem Reconcile_requeue_after:
  assumes get: "client_Get w = Inr issuer0"
    and key: "KeyID (Spec issuer0) \<noteq> []"
    and dfl: "setIssuerDefaultValues issuer0 = Some issuer"
    and rbv: "RenewBefore (Spec issuer) = Some rb"
    and inp: "desiredCertificateAuthorityCertificateInput issuer = Some certInput"
    and pre: "GenerateCertificateAuthorityCertificate L (bigints w) certInput = (desiredCert, h)"
    and signed: "certificateNeedsRenewal L h (now_decision clk) issuer desiredCert = Some False \<or>
       (certificateNeedsRenewal L h (now_decision clk) issuer desiredCert = Some True \<and>
        (\<exists>raw. kmsca_sign L certInput = Inr raw))"
    and persisted: "list_all (\<lambda>r. r = None) (take 2 (update_results w))"
    and fits: "rb \<noteq> minDuration"
      "- (2 ^ 63) \<le> NotAfter desiredCert - sint rb - now_requeue clk"
      "NotAfter desiredCert - sint rb - now_requeue clk < 2 ^ 63"
  shows "\<exists>res w'. Reconcile L clk w = Some ((res, None), w') \<and>
     sint (RequeueAfter res) = NotAfter desiredCert - sint rb - now_requeue clk"
proof -
  have "sint (time_Until (now_requeue clk) (Time_Add (NotAfter desiredCert) (- 1 * rb))) =
      NotAfter desiredCert - sint rb - now_requeue clk"
    using fits by (simp add: time_Until_def Time_Sub_sint Time_Add_def sint_minus_64)
  then show ?thesis
    using Reconcile_success [OF get key dfl rbv inp pre signed persisted] by auto
qed

theorem Reconcile_requeue_after_witness:
  "client_Get example_World = Inr example_issuer \<and>
   KeyID (Spec example_issuer) \<noteq> [] \<and>
   setIssuerDefaultValues example_issuer = Some example_issuer \<and>
   RenewBefore (Spec example_issuer) = Some 1000 \<and>
   kmsca_sign example_Libs example_certInput = Inr [9, 7] \<and>
   list_all (\<lambda>r. r = None) (take 2 (update_results example_World)) \<and>
   (\<exists>res w'. Reconcile example_Libs example_Clock example_World = Some ((res, None), w') \<and>
      sint (RequeueAfter res) = 3600000001000 - 1000 - 2000)"
proof -
  have signed: "certificateNeedsRenewal example_Libs [7] (now_decision example_Clock) example_issuer
       example_desiredCert = Some False \<or>
     (certificateNeedsRenewal example_Libs [7] (now_decision example_Clock) example_issuer
        example_desiredCert = Some True \<and>
      (\<exists>raw. kmsca_sign example_Libs example_certInput = Inr raw))"
    using example_needed(1) example_sign(1) by blast
  have persisted: "list_all (\<lambda>r. r = None) (take 2 (update_results example_World))"
    by (simp add: example_World_def)
  have f1: "(1000 :: time_Duration) \<noteq> minDuration"
    by (simp add: minDuration_def)
  have f2: "- (2 ^ 63) \<le> NotAfter example_desiredCert - sint (1000 :: time_Duration)
      - now_requeue example_Clock"
    by (simp add: example_desiredCert_def example_Clock_def)
  have f3: "NotAfter example_desiredCert - sint (1000 :: time_Duration)
      - now_requeue example_Clock < 2 ^ 63"
    by (simp add: example_desiredCert_def example_Clock_def)
  from Reconcile_requeue_after [OF example_get example_key example_defaults example_renewBefore
      example_input example_preview(1) signed persisted f1 f2 f3]
  show ?thesis
    using example_get example_key example_defaults example_renewBefore example_sign(1) persisted
    by (simp add: example_desiredCert_def example_Clock_def)
qed

text \<open>
  C3, as stated: every failure makes \<^verbatim>\<open>Reconcile\<close> return a non-nil error. In the example
  world with an empty key reference the validation fails, the status write of
  \<^verbatim>\<open>manageFailure\<close> succeeds, and \<^verbatim>\<open>Reconcile\<close> returns a nil error.
\<close>

theorem Reconcile_nil_error_on_empty_key:
  "map_option fst (Reconcile example_Libs example_Clock example_World_no_key) =
     Some (emptyResult, None)"
  by (simp add: model_defs example_defs example_World_no_key_def)

text \<open>
  C3, amended. On a validation failure, on a signing failure and on a failed write of the
  certificate bytes, \<^verbatim>\<open>Reconcile\<close> sends a warning event with reason Failed and the message
  of the failure, writes a status whose Ready condition is false with reason Failed and that
  message, and returns an empty result with the outcome of that last write: nil when the
  write succeeds, its error when it fails. When nothing fails but the final status write, the
  one of \<^verbatim>\<open>manageSuccess\<close>, \<^verbatim>\<open>Reconcile\<close> returns the error of that write together with the
  requeue delay; the event it has sent is a normal one and the status it tried to write has
  the Ready condition true with reason Issued.
\<close>

theorem Reconcile_failure_result:
  assumes get: "client_Get w = Inr issuer0"
    and dfl: "setIssuerDefaultValues issuer0 = Some issuer"
    and rbv: "RenewBefore (Spec issuer) = Some rb"
    and inp: "desiredCertificateAuthorityCertificateInput issuer = Some certInput"
    and pre: "GenerateCertificateAuthorityCertificate L (bigints w) certInput = (desiredCert, h)"
  shows
    "(KeyID (Spec issuer0) = [] \<or>
      (certificateNeedsRenewal L h (now_decision clk) issuer desiredCert = Some True \<and>
       ((\<exists>e. kmsca_sign L certInput = Inl e) \<or> next_update_result w \<noteq> None)) \<longrightarrow>
      (\<exists>err w' st c. Reconcile L clk w = Some ((emptyResult, err), w') \<and>
         updates w' \<noteq> [] \<and> last (updates w') = (st, err) \<and>
         readyCondition st = Some c \<and> CondStatus c = ConditionFalse \<and>
         Reason c = KMSIssuerReasonFailed \<and>
         Message c =
           (if KeyID (Spec issuer0) = [] then ''Not a valid key: ''
            else case kmsca_sign L certInput of
                   Inl e \<Rightarrow> ''Failed to generate the Certificate Authority Certificate''
                 | Inr raw \<Rightarrow> ''Failed to update the issuer with the issued Certificate'') \<and>
         events w' = events w @ [(EventTypeWarning, KMSIssuerReasonFailed, Message c)])) \<and>
     (KeyID (Spec issuer0) \<noteq> [] \<and>
      ((certificateNeedsRenewal L h (now_decision clk) issuer desiredCert = Some False \<and>
        (\<exists>rest. update_results w = Some e # rest)) \<or>
       (certificateNeedsRenewal L h (now_decision clk) issuer desiredCert = Some True \<and>
        (\<exists>raw. kmsca_sign L certInput = Inr raw) \<and>
        (\<exists>rest. update_results w = None # Some e # rest))) \<longrightarrow>
      (\<exists>w' st c. Reconcile L clk w =
           Some ((\<lparr>Requeue = False,
                   RequeueAfter =
                     time_Until (now_requeue clk) (Time_Add (NotAfter desiredCert) (- 1 * rb))\<rparr>,
                  Some e), w') \<and>
         updates w' \<noteq> [] \<and> last (updates w') = (st, Some e) \<and>
         readyCondition st = Some c \<and> CondStatus c = ConditionTrue \<and>
         Reason c = KMSIssuerReasonIssued \<and>
         events w' = events w @ [(EventTypeNormal, KMSIssuerReasonIssued, [])]))"
proof (intro conjI impI)
  assume failure: "KeyID (Spec issuer0) = [] \<or>
      (certificateNeedsRenewal L h (now_decision clk) issuer desiredCert = Some True \<and>
       ((\<exists>e. kmsca_sign L certInput = Inl e) \<or> next_update_result w \<noteq> None))"
  have report: "\<exists>st c. updates (snd (manageFailure clk i x m v)) \<noteq> [] \<and>
      last (updates (snd (manageFailure clk i x m v))) = (st, fst (manageFailure clk i x m v)) \<and>
      readyCondition st = Some c \<and> CondStatus c = ConditionFalse \<and>
      Reason c = KMSIssuerReasonFailed \<and> Message c = m \<and>
      events (snd (manageFailure clk i x m v)) =
        events v @ [(EventTypeWarning, KMSIssuerReasonFailed, Message c)]" for i x m v
    using manageFailure_updates [of clk i x m v]
    by (auto simp add: manageFailure_fst manageFailure_events)
  show "\<exists>err w' st c. Reconcile L clk w = Some ((emptyResult, err), w') \<and>
         updates w' \<noteq> [] \<and> last (updates w') = (st, err) \<and>
         readyCondition st = Some c \<and> CondStatus c = ConditionFalse \<and>
         Reason c = KMSIssuerReasonFailed \<and>
         Message c =
           (if KeyID (Spec issuer0) = [] then ''Not a valid key: ''
            else case kmsca_sign L certInput of
                   Inl e \<Rightarrow> ''Failed to generate the Certificate Authority Certificate''
                 | Inr raw \<Rightarrow> ''Failed to update the issuer with the issued Certificate'') \<and>
         events w' = events w @ [(EventTypeWarning, KMSIssuerReasonFailed, Message c)]"
  proof (cases "KeyID (Spec issuer0) = []")
    case True
    show ?thesis
      using Reconcile_invalid_key [OF get True, of L clk] True
        report [of issuer0 "ErrorString ''INVALID KeyId''" "''Not a valid key: ''" w]
      by auto
  next
    case False
    with failure have needed:
      "certificateNeedsRenewal L h (now_decision clk) issuer desiredCert = Some True"
      and how: "(\<exists>e. kmsca_sign L certInput = Inl e) \<or> next_update_result w \<noteq> None"
      by blast+
    show ?thesis
    proof (cases "kmsca_sign L certInput")
      case (Inl x)
      have ev: "events (w\<lparr>bigints := h\<rparr>) = events w"
        by simp
      show ?thesis
        using Reconcile_sign_failed [OF get False dfl inp pre needed Inl] False Inl ev
          report [of issuer x "''Failed to generate the Certificate Authority Certificate''"
            "w\<lparr>bigints := h\<rparr>"]
        by auto
    next
      case (Inr raw)
      with how obtain x where x: "next_update_result w = Some x"
        by auto
      define issuer1 where "issuer1 = issuer\<lparr>Status := (Status issuer)
            \<lparr>Certificate := pem_EncodeToMemory L ''CERTIFICATE'' raw\<rparr>\<rparr>"
      have ev: "events (snd (Status_Update issuer1 (w\<lparr>bigints := h\<rparr>))) = events w"
        by (simp add: Status_Update_events)
      show ?thesis
        using Reconcile_update_failed [OF get False dfl inp pre needed Inr issuer1_def x] False Inr ev
          report [of issuer1 x "''Failed to update the issuer with the issued Certificate''"
            "snd (Status_Update issuer1 (w\<lparr>bigints := h\<rparr>))"]
        by auto
    qed
  qed
next
  assume final: "KeyID (Spec issuer0) \<noteq> [] \<and>
      ((certificateNeedsRenewal L h (now_decision clk) issuer desiredCert = Some False \<and>
        (\<exists>rest. update_results w = Some e # rest)) \<or>
       (certificateNeedsRenewal L h (now_decision clk) issuer desiredCert = Some True \<and>
        (\<exists>raw. kmsca_sign L certInput = Inr raw) \<and>
        (\<exists>rest. update_results w = None # Some e # rest)))"
  then have key: "KeyID (Spec issuer0) \<noteq> []"
    by blast
  let ?after = "time_Until (now_requeue clk) (Time_Add (NotAfter desiredCert) (- 1 * rb))"
  have finish: "\<exists>w' st c. reconcileDone clk i desiredCert v =
        Some ((\<lparr>Requeue = False, RequeueAfter = ?after\<rparr>, Some e), w') \<and>
      updates w' \<noteq> [] \<and> last (updates w') = (st, Some e) \<and>
      readyCondition st = Some c \<and> CondStatus c = ConditionTrue \<and>
      Reason c = KMSIssuerReasonIssued \<and>
      events w' = events v @ [(EventTypeNormal, KMSIssuerReasonIssued, [])]"
    if "RenewBefore (Spec i) = Some rb" and "next_update_result v = Some e" for i v
    using reconcileDone_eq [OF that(1), of clk desiredCert v] manageSuccess_updates [of clk i v]
      that(2)
    by (auto simp add: manageSuccess_fst manageSuccess_events)
  from final show "\<exists>w' st c. Reconcile L clk w =
           Some ((\<lparr>Requeue = False, RequeueAfter = ?after\<rparr>, Some e), w') \<and>
         updates w' \<noteq> [] \<and> last (updates w') = (st, Some e) \<and>
         readyCondition st = Some c \<and> CondStatus c = ConditionTrue \<and>
         Reason c = KMSIssuerReasonIssued \<and>
         events w' = events w @ [(EventTypeNormal, KMSIssuerReasonIssued, [])]"
  proof (elim conjE disjE exE)
    fix rest
    assume skip: "certificateNeedsRenewal L h (now_decision clk) issuer desiredCert = Some False"
      and res: "update_results w = Some e # rest"
    have n: "next_update_result (w\<lparr>bigints := h\<rparr>) = Some e"
      using res by (simp add: next_update_result_def)
    show ?thesis
      using Reconcile_skipped [OF get key dfl inp pre skip] finish [OF rbv n]
      by simp
  next
    fix raw rest
    assume needed: "certificateNeedsRenewal L h (now_decision clk) issuer desiredCert = Some True"
      and raw: "kmsca_sign L certInput = Inr raw"
      and res: "update_results w = None # Some e # rest"
    define issuer1 where "issuer1 = issuer\<lparr>Status := (Status issuer)
            \<lparr>Certificate := pem_EncodeToMemory L ''CERTIFICATE'' raw\<rparr>\<rparr>"
    let ?w2 = "snd (Status_Update issuer1 (w\<lparr>bigints := h\<rparr>))"
    have n1: "next_update_result w = None"
      using res by (simp add: next_update_result_def)
    have n2: "next_update_result ?w2 = Some e"
      using res by (simp add: next_update_result_def Status_Update_results)
    have rb1: "RenewBefore (Spec issuer1) = Some rb"
      using rbv by (simp add: issuer1_def)
    have ev: "events ?w2 = events w"
      by (simp add: Status_Update_events)
    show ?thesis
      using Reconcile_signed [OF get key dfl inp pre needed raw issuer1_def n1] finish [OF rb1 n2] ev
      by simp
  qed
qed


theorem Reconcile_failure_result_witness:
  "client_Get example_World = Inr example_issuer \<and>
   certificateNeedsRenewal example_Libs_sign_fails [7] (now_decision example_Clock) example_issuer
     example_desiredCert = Some True \<and>
   kmsca_sign example_Libs_sign_fails example_certInput = Inl (ErrorString ''kms: access denied'') \<and>
   (\<exists>err w' st c. Reconcile example_Libs_sign_fails example_Clock example_World =
        Some ((emptyResult, err), w') \<and>
      updates w' \<noteq> [] \<and> last (updates w') = (st, err) \<and>
      readyCondition st = Some c \<and> CondStatus c = ConditionFalse \<and>
      Reason c = KMSIssuerReasonFailed \<and>
      Message c = ''Failed to generate the Certificate Authority Certificate'' \<and>
      events w' = events example_World @
        [(EventTypeWarning, KMSIssuerReasonFailed,
          ''Failed to generate the Certificate Authority Certificate'')]) \<and>
   client_Get example_World_conflict = Inr example_issuer \<and>
   KeyID (Spec example_issuer) \<noteq> [] \<and>
   certificateNeedsRenewal example_Libs [7] (now_decision example_Clock) example_issuer
     example_desiredCert = Some True \<and>
   kmsca_sign example_Libs example_certInput = Inr [9, 7] \<and>
   update_results example_World_conflict = [None, Some (ErrorString ''conflict'')] \<and>
   (\<exists>w' st c. Reconcile example_Libs example_Clock example_World_conflict =
        Some ((\<lparr>Requeue = False, RequeueAfter = 3599999998000\<rparr>,
               Some (ErrorString ''conflict'')), w') \<and>
      updates w' \<noteq> [] \<and> last (updates w') = (st, Some (ErrorString ''conflict'')) \<and>
      readyCondition st = Some c \<and> CondStatus c = ConditionTrue \<and>
      Reason c = KMSIssuerReasonIssued \<and>
      events w' = events example_World_conflict @
        [(EventTypeNormal, KMSIssuerReasonIssued, [])])"
proof -
  have failure: "KeyID (Spec example_issuer) = [] \<or>
     (certificateNeedsRenewal example_Libs_sign_fails [7] (now_decision example_Clock)
        example_issuer example_desiredCert = Some True \<and>
      ((\<exists>e. kmsca_sign example_Libs_sign_fails example_certInput = Inl e) \<or>
       next_update_result example_World \<noteq> None))"
    using example_needed(2) example_sign(2) by blast
  have first: "\<exists>err w' st c. Reconcile example_Libs_sign_fails example_Clock example_World =
        Some ((emptyResult, err), w') \<and>
      updates w' \<noteq> [] \<and> last (updates w') = (st, err) \<and>
      readyCondition st = Some c \<and> CondStatus c = ConditionFalse \<and>
      Reason c = KMSIssuerReasonFailed \<and>
      Message c = ''Failed to generate the Certificate Authority Certificate'' \<and>
      events w' = events example_World @
        [(EventTypeWarning, KMSIssuerReasonFailed,
          ''Failed to generate the Certificate Authority Certificate'')]"
    using Reconcile_failure_result [OF example_get example_defaults example_renewBefore
        example_input example_preview(2), of example_Clock] failure example_key example_sign(2)
    by auto
  have get2: "client_Get example_World_conflict = Inr example_issuer"
    by (simp add: client_Get_def example_World_conflict_def example_World_def)
  have pre2: "GenerateCertificateAuthorityCertificate example_Libs (bigints example_World_conflict)
      example_certInput = (example_desiredCert, [7])"
    using example_preview(1) by (simp add: example_World_conflict_def example_World_def)
  have res2: "update_results example_World_conflict = [None, Some (ErrorString ''conflict'')]"
    by (simp add: example_World_conflict_def)
  have final: "KeyID (Spec example_issuer) \<noteq> [] \<and>
      ((certificateNeedsRenewal example_Libs [7] (now_decision example_Clock) example_issuer
          example_desiredCert = Some False \<and>
        (\<exists>rest. update_results example_World_conflict = Some (ErrorString ''conflict'') # rest)) \<or>
       (certificateNeedsRenewal example_Libs [7] (now_decision example_Clock) example_issuer
          example_desiredCert = Some True \<and>
        (\<exists>raw. kmsca_sign example_Libs example_certInput = Inr raw) \<and>
        (\<exists>rest. update_results example_World_conflict =
           None # Some (ErrorString ''conflict'') # rest)))"
    using example_key example_needed(1) example_sign(1) res2 by simp
  have after: "time_Until (now_requeue example_Clock)
      (Time_Add (NotAfter example_desiredCert) (- 1 * 1000)) = 3599999998000"
    by (simp add: time_Until_def Time_Add_def Time_Sub_def example_desiredCert_def
        example_Clock_def)
  have second: "\<exists>w' st c. Reconcile example_Libs example_Clock example_World_conflict =
        Some ((\<lparr>Requeue = False, RequeueAfter = 3599999998000\<rparr>,
               Some (ErrorString ''conflict'')), w') \<and>
      updates w' \<noteq> [] \<and> last (updates w') = (st, Some (ErrorString ''conflict'')) \<and>
      readyCondition st = Some c \<and> CondStatus c = ConditionTrue \<and>
      Reason c = KMSIssuerReasonIssued \<and>
      events w' = events example_World_conflict @
        [(EventTypeNormal, KMSIssuerReasonIssued, [])]"
    using Reconcile_failure_result [OF get2 example_defaults example_renewBefore
        example_input pre2, of example_Clock "ErrorString ''conflict''"] final after
    by simp
  show ?thesis
    using first second example_get get2 example_key example_needed example_sign res2
    by blast
qed

text \<open>
  C6, as stated: a run writes the status at most once. In the example world the run signs a
  certificate and writes the status twice: first the certificate bytes with the conditions
  as they were, then the same bytes with the Ready condition.
\<close>

theorem Reconcile_writes_twice:
  "map_option (\<lambda>r. (fst r, map (\<lambda>u. (Certificate (fst u), map CondStatus (Conditions (fst u)), snd u))
       (updates (snd r))))
     (Reconcile example_Libs example_Clock example_World) =
   Some ((\<lparr>Requeue = False, RequeueAfter = 3599999998000\<rparr>, None),
         [([45, 9, 7], [], None), ([45, 9, 7], [ConditionTrue], None)])"
  by (simp add: model_defs example_defs)

text \<open>
  C6, amended. A run that finds the resource writes the status once when validation fails,
  when no renewal is needed and when the signing fails; after a successful signing it writes
  twice: first the new certificate bytes with the conditions unchanged, then the same bytes
  with the Ready condition set.
\<close>

theorem Reconcile_status_writes:
  assumes get: "client_Get w = Inr issuer0"
    and dfl: "setIssuerDefaultValues issuer0 = Some issuer"
    and inp: "desiredCertificateAuthorityCertificateInput issuer = Some certInput"
    and pre: "GenerateCertificateAuthorityCertificate L (bigints w) certInput = (desiredCert, h)"
  shows "\<exists>r w' ws. Reconcile L clk w = Some (r, w') \<and> updates w' = updates w @ ws \<and>
     (if KeyID (Spec issuer0) \<noteq> [] \<and>
         certificateNeedsRenewal L h (now_decision clk) issuer desiredCert = Some True \<and>
         (\<exists>raw. kmsca_sign L certInput = Inr raw)
      then \<exists>raw st1 o1 st2 o2. kmsca_sign L certInput = Inr raw \<and>
             ws = [(st1, o1), (st2, o2)] \<and>
             Certificate st1 = pem_EncodeToMemory L ''CERTIFICATE'' raw \<and>
             Conditions st1 = Conditions (Status issuer0) \<and>
             Certificate st2 = pem_EncodeToMemory L ''CERTIFICATE'' raw \<and>
             readyCondition st2 \<noteq> None
      else length ws = 1)"
proof -
  let ?w1 = "w\<lparr>bigints := h\<rparr>"
  have st: "Status issuer = Status issuer0"
    using setIssuerDefaultValues_fields(3) [OF dfl] .
  obtain rb where rbv: "RenewBefore (Spec issuer) = Some rb"
    using setIssuerDefaultValues_fields(2) [OF dfl] by blast
  show ?thesis
  proof (cases "KeyID (Spec issuer0) = []")
    case True
    show ?thesis
      using Reconcile_invalid_key [OF get True, of L clk] True
        manageFailure_one_write [of clk issuer0 "ErrorString ''INVALID KeyId''" "''Not a valid key: ''" w]
      by auto
  next
    case key: False
    obtain b where b: "certificateNeedsRenewal L h (now_decision clk) issuer desiredCert = Some b"
      using certificateNeedsRenewal_Some [of issuer L h "now_decision clk" desiredCert] rbv
      by auto
    show ?thesis
    proof (cases b)
      case False
      with b have skip: "certificateNeedsRenewal L h (now_decision clk) issuer desiredCert = Some False"
        by simp
      show ?thesis
        using Reconcile_skipped [OF get key dfl inp pre skip]
          reconcileDone_eq [OF rbv, of clk desiredCert ?w1]
          manageSuccess_one_write [of clk issuer ?w1] skip
        by auto
    next
      case True
      with b have needed: "certificateNeedsRenewal L h (now_decision clk) issuer desiredCert = Some True"
        by simp
      show ?thesis
      proof (cases "kmsca_sign L certInput")
        case (Inl e)
        show ?thesis
          using Reconcile_sign_failed [OF get key dfl inp pre needed Inl] Inl
            manageFailure_one_write [of clk issuer e
              "''Failed to generate the Certificate Authority Certificate''" ?w1]
          by auto
      next
        case (Inr raw)
        define issuer1 where "issuer1 = issuer\<lparr>Status := (Status issuer)
            \<lparr>Certificate := pem_EncodeToMemory L ''CERTIFICATE'' raw\<rparr>\<rparr>"
        let ?w2 = "snd (Status_Update issuer1 ?w1)"
        have first: "updates ?w2 = updates w @ [(Status issuer1, next_update_result ?w1)]"
          by (simp add: Status_Update_updates)
        have c1: "Certificate (Status issuer1) = pem_EncodeToMemory L ''CERTIFICATE'' raw"
          and k1: "Conditions (Status issuer1) = Conditions (Status issuer0)"
          and rb1: "RenewBefore (Spec issuer1) = Some rb"
          using st rbv by (simp_all add: issuer1_def)
        have "\<exists>r w' st2 o2. Reconcile L clk w = Some (r, w') \<and>
            updates w' = updates ?w2 @ [(st2, o2)] \<and>
            Certificate st2 = Certificate (Status issuer1) \<and> readyCondition st2 \<noteq> None"
        proof (cases "next_update_result w")
          case None
          show ?thesis
            using Reconcile_signed [OF get key dfl inp pre needed Inr issuer1_def None]
              reconcileDone_eq [OF rb1, of clk desiredCert ?w2]
              manageSuccess_one_write [of clk issuer1 ?w2]
            by auto
        next
          case (Some e)
          show ?thesis
            using Reconcile_update_failed [OF get key dfl inp pre needed Inr issuer1_def Some]
              manageFailure_one_write [of clk issuer1 e
                "''Failed to update the issuer with the issued Certificate''" ?w2]
            by auto
        qed
        then obtain r w' st2 o2 where run: "Reconcile L clk w = Some (r, w')"
          and second: "updates w' = updates ?w2 @ [(st2, o2)]"
          and c2: "Certificate st2 = Certificate (Status issuer1)" "readyCondition st2 \<noteq> None"
          by blast
        from first second have
          "updates w' = updates w @ [(Status issuer1, next_update_result ?w1), (st2, o2)]"
          by simp
        with run c1 k1 c2 key needed Inr show ?thesis
          by auto
      qed
    qed
  qed
qed

theorem Reconcile_status_writes_witness:
  "client_Get example_World = Inr example_issuer \<and>
   KeyID (Spec example_issuer) \<noteq> [] \<and>
   certificateNeedsRenewal example_Libs [7] (now_decision example_Clock) example_issuer
     example_desiredCert = Some True \<and>
   kmsca_sign example_Libs example_certInput = Inr [9, 7] \<and>
   (\<exists>r w' st1 o1 st2 o2. Reconcile example_Libs example_Clock example_World = Some (r, w') \<and>
      updates w' = updates example_World @ [(st1, o1), (st2, o2)] \<and>
      Certificate st1 = [45, 9, 7] \<and> Conditions st1 = [] \<and>
      Certificate st2 = [45, 9, 7] \<and> readyCondition st2 \<noteq> None)"
proof -
  have p: "pem_EncodeToMemory example_Libs ''CERTIFICATE'' [9, 7] = [45, 9, 7]"
    by (simp add: example_Libs_def)
  have k: "Conditions (Status example_issuer) = []"
    by (simp add: example_issuer_def)
  from Reconcile_status_writes [OF example_get example_defaults example_input example_preview(1),
      of example_Clock]
  show ?thesis
    using example_get example_key example_needed(1) example_sign(1)
    by (auto simp add: p k)
qed

end
